theory Spec2Isabelle
  imports Complex_Main "HOL-Library.Word" "HOL-Library.Sublist"
begin

unbundle bit_operations_syntax

text \<open>
  The sources. The programs are single files: vktriangle/vktriangle.cpp,
  vktriangle_glfw/vktriangle_glfw.cpp and
  vktriangle_external_memory/vktriangle_external_memory.cpp; vktriangle_subpass.cpp
  follows the composition shader in the file vktriangle_subpass/subpass_2_compose.frag
  (from its line 32 on); the host program of the compute example, called vkcompute.cpp
  below, and the query tool vkmininfo.cpp are the two parts of unnamed/part_003. The
  shaders are vkcompute/compute.comp, the head of vktriangle_subpass/subpass_2_compose.frag
  and subpass_0_colorizer.frag (unnamed/part_002). Line numbers are those of these
  files.
\<close>

section \<open>Process configuration: the two environment variables\<close>

text \<open>
  The process environment maps a variable name to its value. A C string ends at its
  first NUL character, so the value a program sees through \<open>getenv\<close> is the part of the
  stored characters before the first NUL; \<open>None\<close> is the NULL pointer of an unset
  variable.
\<close>

type_synonym environ = "string \<rightharpoonup> string"

definition c_str :: "string \<Rightarrow> string" where
  "c_str s = takeWhile (\<lambda>c. c \<noteq> CHR 0x00) s"

definition getenv :: "environ \<Rightarrow> string \<Rightarrow> string option" where
  "getenv env name = map_option c_str (env name)"

text \<open>
  \<open>strncmp(s1, s2, n)\<close> of the C library on NUL-terminated strings: at most \<open>n\<close>
  characters are compared, the end of a string counts as the character 0, and the result
  is the difference of the first two characters that differ (0 when there is none).
\<close>

fun strncmp :: "string \<Rightarrow> string \<Rightarrow> nat \<Rightarrow> int" where
  "strncmp s1 s2 0 = 0"
| "strncmp [] [] (Suc n) = 0"
| "strncmp [] (d # ds) (Suc n) = 0 - int (of_char d)"
| "strncmp (c # cs) [] (Suc n) = int (of_char c)"
| "strncmp (c # cs) (d # ds) (Suc n) =
     (if c = d then strncmp cs ds n else int (of_char c) - int (of_char d))"

text \<open>
  The first statements of \<open>main\<close> in vktriangle.cpp (lines 108-116), repeated verbatim in
  vktriangle_glfw.cpp (115-123), vktriangle_subpass.cpp, vktriangle_external_memory.cpp
  (984-992) and vkcompute.cpp:
  \<^verbatim>\<open>
    const char *envValidation = getenv("DEMO_USE_VALIDATION");
    const char *envOutputName = getenv("DEMO_OUTPUT");
    bool enableValidationLayers = ((envValidation != NULL) && (strncmp("1", envValidation, 2) == 0));
    const char *outputFileName = "out.ppm";
    if (envOutputName != NULL) { outputFileName = envOutputName; }
  \<close>
\<close>

definition enableValidationLayers :: "environ \<Rightarrow> bool" where
  "enableValidationLayers env =
     (case getenv env ''DEMO_USE_VALIDATION'' of
        None \<Rightarrow> False
      | Some envValidation \<Rightarrow> strncmp ''1'' envValidation 2 = 0)"

definition outputFileName :: "environ \<Rightarrow> string" where
  "outputFileName env =
     (case getenv env ''DEMO_OUTPUT'' of
        None \<Rightarrow> ''out.ppm''
      | Some envOutputName \<Rightarrow> envOutputName)"

definition g_validationLayers :: "string list" where
  "g_validationLayers = [''VK_LAYER_KHRONOS_validation'']"

text \<open>
  The programs under src: five rendering examples and the information query tool
  vkmininfo.cpp, whose header says "Env variables: None".
\<close>

datatype example =
  Vktriangle | Vktriangle_glfw | Vktriangle_subpass | Vktriangle_external_memory
  | Vkcompute | Vkmininfo

text \<open>
  The layers handed to \<open>vkCreateInstance\<close>. The rendering examples start from
  \<open>enabledLayerCount = 0\<close> and install \<open>g_validationLayers\<close> under
  \<open>if (enableValidationLayers)\<close>; the producer thread of the external-memory example is
  given the same flag through \<open>threadOptions\<close>. \<open>CreateInstance\<close> of vkmininfo.cpp passes
  the local vector \<open>layers = {}\<close> and reads no environment variable.
\<close>

fun enabled_layers :: "example \<Rightarrow> environ \<Rightarrow> string list" where
  "enabled_layers Vkmininfo env = []"
| "enabled_layers ex env = (if enableValidationLayers env then g_validationLayers else [])"

text \<open>
  The file that receives the final image dump of \<open>main\<close>; vkmininfo writes no file.
  (The external-memory producer thread and the compute example also write the
  fixed names thread_out.ppm and src.ppm.)
\<close>

fun dump_file :: "example \<Rightarrow> environ \<Rightarrow> string option" where
  "dump_file Vkmininfo env = None"
| "dump_file ex env = Some (outputFileName env)"

section \<open>The image dump: a binary PPM file\<close>

text \<open>
  The dump is step 25 of \<open>main\<close> in vktriangle.cpp (lines 892-911); the same statements
  close \<open>main\<close> of vktriangle_glfw.cpp, vktriangle_subpass.cpp and
  vktriangle_external_memory.cpp (also in its producer thread) and form \<open>DumpImage\<close> of
  vkcompute.cpp:
  \<^verbatim>\<open>
    file << "P6\n" << renderImageWidth << "\n" << renderImageHeight << "\n" << 255 << "\n";
    for (uint32_t y = 0; y < renderImageHeight; y++) {
        uint32_t *row = (uint32_t*)data;
        for (uint32_t x = 0; x < renderImageWidth; x++) {
            file.write((const char*)row, 3);
            row++;
        }
        data += subResourceLayout.rowPitch;
    }
  \<close>
  The result is the sequence of bytes handed to the stream (the code does not test
  whether the file could be opened). The mapped image memory is a function from byte
  addresses to bytes, and a pointer is the address it holds. The counters \<open>x\<close> and \<open>y\<close> stay below the \<open>uint32_t\<close> bounds
  they are compared with, so they are natural numbers here.
\<close>

type_synonym byte = "8 word"
type_synonym memory = "nat \<Rightarrow> byte"

text \<open>The two fields of \<open>VkSubresourceLayout\<close> that the dump reads.\<close>

record VkSubresourceLayout =
  offset :: nat
  rowPitch :: nat

text \<open>\<open>operator<<\<close> on an unsigned integer prints its decimal digits.\<close>

definition digit_char :: "nat \<Rightarrow> char" where
  "digit_char d = ''0123456789'' ! d"

function decimal :: "nat \<Rightarrow> string" where
  "decimal n =
     (if n < 10 then [digit_char n] else decimal (n div 10) @ [digit_char (n mod 10)])"
  by pat_completeness auto
termination
  by (relation "measure (\<lambda>n. n)") auto

declare decimal.simps [simp del]

text \<open>Reading a decimal numeral back, to state what the header reports.\<close>

definition parse_decimal :: "string \<Rightarrow> nat" where
  "parse_decimal s = foldl (\<lambda>a c. 10 * a + (of_char c - 48)) 0 s"

definition bytes_of :: "string \<Rightarrow> byte list" where
  "bytes_of s = map (\<lambda>c. of_nat (of_char c)) s"

definition ppm_header :: "nat \<Rightarrow> nat \<Rightarrow> byte list" where
  "ppm_header renderImageWidth renderImageHeight =
     bytes_of (''P6'' @ [CHR 0x0A] @ decimal renderImageWidth @ [CHR 0x0A]
               @ decimal renderImageHeight @ [CHR 0x0A] @ decimal 255 @ [CHR 0x0A])"

text \<open>
  The inner loop: \<open>row\<close> is the address held by the \<open>uint32_t*\<close>, so \<open>row++\<close> adds 4, and
  \<open>file.write((const char*)row, 3)\<close> appends the three bytes at \<open>row\<close>.
\<close>

function write_row :: "memory \<Rightarrow> nat \<Rightarrow> nat \<Rightarrow> nat \<Rightarrow> byte list \<Rightarrow> byte list" where
  "write_row mem renderImageWidth x row file =
     (if x < renderImageWidth
      then write_row mem renderImageWidth (Suc x) (row + 4)
             (file @ [mem row, mem (row + 1), mem (row + 2)])
      else file)"
  by pat_completeness auto
termination
  by (relation "measure (\<lambda>(mem, w, x, row, file). w - x)") auto

declare write_row.simps [simp del]

text \<open>The outer loop: \<open>data\<close> moves on by the row pitch after each row.\<close>

function write_rows ::
  "memory \<Rightarrow> nat \<Rightarrow> nat \<Rightarrow> nat \<Rightarrow> nat \<Rightarrow> nat \<Rightarrow> byte list \<Rightarrow> byte list" where
  "write_rows mem renderImageWidth renderImageHeight pitch y data file =
     (if y < renderImageHeight
      then write_rows mem renderImageWidth renderImageHeight pitch (Suc y) (data + pitch)
             (write_row mem renderImageWidth 0 data file)
      else file)"
  by pat_completeness auto
termination
  by (relation "measure (\<lambda>(mem, w, h, p, y, data, file). h - y)") auto

declare write_rows.simps [simp del]

text \<open>
  Steps 24 and 25: \<open>mapped\<close> is the address \<open>vkMapMemory\<close> returned,
  \<open>data += subResourceLayout.offset\<close> precedes the iteration, and the result is the content
  of the file.
\<close>

definition write_ppm ::
  "nat \<Rightarrow> nat \<Rightarrow> memory \<Rightarrow> nat \<Rightarrow> VkSubresourceLayout \<Rightarrow> byte list" where
  "write_ppm renderImageWidth renderImageHeight mem mapped subResourceLayout =
     write_rows mem renderImageWidth renderImageHeight (rowPitch subResourceLayout) 0
       (mapped + offset subResourceLayout)
       (ppm_header renderImageWidth renderImageHeight)"

text \<open>
  vktriangle.cpp fixes \<open>renderImageWidth = 256\<close> and \<open>renderImageHeight = 256\<close>
  (lines 297-298); the windowed examples take both from the swapchain extent.
\<close>

definition vktriangle_dump :: "memory \<Rightarrow> nat \<Rightarrow> VkSubresourceLayout \<Rightarrow> byte list" where
  "vktriangle_dump mem mapped subResourceLayout = write_ppm 256 256 mem mapped subResourceLayout"

text \<open>
  The closed form of the nested iteration, for the proofs: the three bytes of one pixel, the
  bytes written for one row, and the bytes written for all rows.
\<close>

definition rgb_at :: "memory \<Rightarrow> nat \<Rightarrow> byte list" where
  "rgb_at mem a = [mem a, mem (a + 1), mem (a + 2)]"

definition row_bytes :: "memory \<Rightarrow> nat \<Rightarrow> nat \<Rightarrow> byte list" where
  "row_bytes mem w a = concat (map (\<lambda>k. rgb_at mem (a + 4 * k)) [0..<w])"

definition payload :: "memory \<Rightarrow> nat \<Rightarrow> nat \<Rightarrow> nat \<Rightarrow> nat \<Rightarrow> byte list" where
  "payload mem w h pitch data =
     concat (map (\<lambda>j. row_bytes mem w (data + pitch * j)) [0..<h])"

section \<open>The draw and present loop\<close>

text \<open>
  Step G.25 of \<open>main\<close> in vktriangle_glfw.cpp (lines 1023-1088); the loop of
  vktriangle_external_memory.cpp (lines 1612-1671) has the same statements, and the loop
  of vktriangle_subpass.cpp runs them after its per-frame update of the uniform buffer
  (modelled further down as \<open>subpass_frame_iteration\<close>).

  Vulkan handles are numbers, \<open>VK_NULL_HANDLE\<close> is 0. The native calls are the
  environment of the loop: the model logs each call with the result the driver gave,
  and reads the results of one iteration from a record.
\<close>

type_synonym handle = nat

definition VK_NULL_HANDLE :: handle where
  "VK_NULL_HANDLE = 0"

datatype VkResult =
  VK_SUCCESS | VK_NOT_READY | VK_TIMEOUT | VK_SUBOPTIMAL_KHR
  | VK_ERROR_OUT_OF_HOST_MEMORY | VK_ERROR_OUT_OF_DEVICE_MEMORY | VK_ERROR_DEVICE_LOST
  | VK_ERROR_OUT_OF_DATE_KHR | VK_ERROR_SURFACE_LOST_KHR

text \<open>
  The calls of the loop with the arguments that vary: the fence waited for or reset, the
  semaphore signalled by the acquisition, and for a submission the index of the command
  buffer (\<open>cmdBuffers[idx]\<close> draws into the framebuffer of swapchain image \<open>idx\<close>, step
  G.12.1), the semaphore waited for, the semaphore signalled and the fence; for a
  presentation the semaphore waited for and the image index.
\<close>

datatype call =
  PollEvents
  | WaitForFences handle
  | AcquireNextImageKHR handle
  | ResetFences handle
  | QueueSubmit nat handle handle handle
  | QueuePresentKHR handle nat

datatype error = Runtime_error string

text \<open>The synchronisation objects created in step G.14, before the loop.\<close>

record sync_objects =
  imageAvailableSemaphores :: "handle list"
  renderFinishedSemaphores :: "handle list"
  activeFences :: "handle list"

definition imagesInFlight :: "32 word" where
  "imagesInFlight = 2"

text \<open>The variables the loop changes.\<close>

record loop_state =
  activeSyncIdx :: "32 word"
  swapImagesFences :: "handle list"

text \<open>
  What the driver answers in one iteration: the result of each call, and the image
  index that \<open>vkAcquireNextImageKHR\<close> stores through its last argument.
\<close>

record driver_replies =
  waitResult :: VkResult
  acquireResult :: VkResult
  imageIndex :: nat
  guardWaitResult :: VkResult
  resetResult :: VkResult
  submitResult :: VkResult
  presentResult :: VkResult

text \<open>
  One iteration of the loop body. The result is the log of the calls made and either the
  \<open>std::runtime_error\<close> thrown or the state for the next iteration. Only the result of
  \<open>vkQueueSubmit\<close> is compared with \<open>VK_SUCCESS\<close>; the other calls are statements
  whose value is dropped. Indexing a vector is only defined below its size; the
  predicates \<open>vectors_sized\<close> and \<open>indices_in_range\<close> below say when every index of a
  run is, and the theorems ask for them.
\<close>

definition frame_iteration ::
  "sync_objects \<Rightarrow> driver_replies \<Rightarrow> loop_state
     \<Rightarrow> (call \<times> VkResult) list \<times> (error + loop_state)" where
  "frame_iteration so r st =
     (let i = unat (activeSyncIdx st);
          log1 = [(PollEvents, VK_SUCCESS),
                  (WaitForFences (activeFences so ! i), waitResult r),
                  (AcquireNextImageKHR (imageAvailableSemaphores so ! i), acquireResult r)];
          log2 = (if swapImagesFences st ! imageIndex r \<noteq> VK_NULL_HANDLE
                  then [(WaitForFences (swapImagesFences st ! imageIndex r), guardWaitResult r)]
                  else []);
          table = (swapImagesFences st)[imageIndex r := activeFences so ! i];
          waitSemaphores = imageAvailableSemaphores so ! i;
          signalSemaphores = renderFinishedSemaphores so ! i;
          log3 = [(ResetFences (activeFences so ! i), resetResult r),
                  (QueueSubmit (imageIndex r) waitSemaphores signalSemaphores
                     (activeFences so ! i), submitResult r)]
      in if submitResult r \<noteq> VK_SUCCESS
         then (log1 @ log2 @ log3, Inl (Runtime_error ''failed to submit command buffer!''))
         else (log1 @ log2 @ log3
                 @ [(QueuePresentKHR signalSemaphores (imageIndex r), presentResult r)],
               Inr \<lparr>activeSyncIdx = (activeSyncIdx st + 1) mod imagesInFlight,
                    swapImagesFences = table\<rparr>))"

text \<open>
  The loop \<open>while (!glfwWindowShouldClose(window))\<close>: one record of replies for each
  iteration that starts before the window is closed. An exception ends the program.
\<close>

fun run_loop ::
  "sync_objects \<Rightarrow> loop_state \<Rightarrow> driver_replies list
     \<Rightarrow> (call \<times> VkResult) list \<times> (error + loop_state)" where
  "run_loop so st [] = ([], Inr st)"
| "run_loop so st (r # rs) =
     (case frame_iteration so r st of
        (cs, Inl e) \<Rightarrow> (cs, Inl e)
      | (cs, Inr st') \<Rightarrow> (case run_loop so st' rs of (cs', res) \<Rightarrow> (cs @ cs', res)))"

text \<open>
  Step G.14 gives the three vectors of synchronisation objects \<open>imagesInFlight\<close>
  elements (\<open>resize(imagesInFlight)\<close>). The index \<open>activeSyncIdx\<close> is used with these
  vectors; the acquired image index is used with \<open>swapImagesFences\<close> and \<open>cmdBuffers\<close>,
  which have one element for each swapchain image.
\<close>

definition vectors_sized :: "sync_objects \<Rightarrow> bool" where
  "vectors_sized so \<longleftrightarrow>
     length (imageAvailableSemaphores so) = 2 \<and> length (renderFinishedSemaphores so) = 2
     \<and> length (activeFences so) = 2"

definition indices_in_range :: "loop_state \<Rightarrow> driver_replies list \<Rightarrow> bool" where
  "indices_in_range st rs \<longleftrightarrow>
     unat (activeSyncIdx st) < 2
     \<and> list_all (\<lambda>r. imageIndex r < length (swapImagesFences st)) rs"

text \<open>
  An acquisition that returns \<open>VK_SUCCESS\<close> or \<open>VK_SUBOPTIMAL_KHR\<close> has stored an image
  index; after any other result the variable \<open>imageIndex\<close> is uninitialised, and what
  the loop does next is not defined.
\<close>

definition image_acquired :: "driver_replies \<Rightarrow> bool" where
  "image_acquired r \<longleftrightarrow>
     acquireResult r = VK_SUCCESS \<or> acquireResult r = VK_SUBOPTIMAL_KHR"

text \<open>The fence waits, the acquisition and the fence reset of an iteration succeeded.\<close>

definition sync_calls_succeed :: "driver_replies \<Rightarrow> bool" where
  "sync_calls_succeed r \<longleftrightarrow>
     waitResult r = VK_SUCCESS \<and> acquireResult r = VK_SUCCESS
     \<and> guardWaitResult r = VK_SUCCESS \<and> resetResult r = VK_SUCCESS"

text \<open>
  The loop of vktriangle_subpass.cpp (lines 1214-1310 of subpass_2_compose.frag). After
  \<open>glfwPollEvents\<close> each iteration updates the uniform buffer and then runs the
  statements G.25.1 to the end of the loop body given above:
  \<^verbatim>\<open>
    if (vkMapMemory(device, uniformBufferMemory, 0, VK_WHOLE_SIZE, 0, &data) != VK_SUCCESS) {
        throw std::runtime_error("failed to map uniform buffer!");
    }
    std::rotate(uniformData.begin(), uniformData.begin() + 4, uniformData.end());
    ::memcpy(data, uniformData.data(), sizeof(float) * uniformData.size());
    vkFlushMappedMemoryRanges(device, 1, &memoryRange);
    vkUnmapMemory(device, uniformBufferMemory);
  \<close>
\<close>

datatype subpass_call =
  MapMemory | FlushMappedMemoryRanges | UnmapMemory | LoopCall call

record subpass_replies =
  mapResult :: VkResult
  flushResult :: VkResult
  frameReplies :: driver_replies

record subpass_state =
  uniformData :: "real list"
  uniformBuffer :: "real list"
  loopState :: loop_state

definition subpass_frame_iteration ::
  "sync_objects \<Rightarrow> subpass_replies \<Rightarrow> subpass_state
     \<Rightarrow> (subpass_call \<times> VkResult) list \<times> (error + subpass_state)" where
  "subpass_frame_iteration so u sst =
     (if mapResult u \<noteq> VK_SUCCESS
      then ([(LoopCall PollEvents, VK_SUCCESS), (MapMemory, mapResult u)],
            Inl (Runtime_error ''failed to map uniform buffer!''))
      else (let data = rotate 4 (uniformData sst);
                calls = [(LoopCall PollEvents, VK_SUCCESS), (MapMemory, mapResult u),
                         (FlushMappedMemoryRanges, flushResult u),
                         (UnmapMemory, VK_SUCCESS)];
                body = frame_iteration so (frameReplies u) (loopState sst)
            in (calls @ map (\<lambda>(c, x). (LoopCall c, x)) (tl (fst body)),
                case snd body of
                  Inl e \<Rightarrow> Inl e
                | Inr st' \<Rightarrow>
                    Inr \<lparr>uniformData = data, uniformBuffer = data, loopState = st'\<rparr>)))"

text \<open>
  The state at the loop's entry: \<open>uint32_t activeSyncIdx = 0\<close>, and
  \<open>swapImagesFences.resize(swapImages.size(), VK_NULL_HANDLE)\<close>.
\<close>

definition initial_state :: "nat \<Rightarrow> loop_state" where
  "initial_state swapImageCount =
     \<lparr>activeSyncIdx = 0, swapImagesFences = replicate swapImageCount VK_NULL_HANDLE\<rparr>"

text \<open>
  The sequence the specification lists for in-flight slot \<open>i\<close> and acquired image
  \<open>idx\<close>: WAIT, ACQUIRE, SUBMIT, PRESENT.
\<close>

definition spec_slot_calls :: "sync_objects \<Rightarrow> nat \<Rightarrow> nat \<Rightarrow> call list" where
  "spec_slot_calls so i idx =
     [WaitForFences (activeFences so ! i),
      AcquireNextImageKHR (imageAvailableSemaphores so ! i),
      QueueSubmit idx (imageAvailableSemaphores so ! i) (renderFinishedSemaphores so ! i)
        (activeFences so ! i),
      QueuePresentKHR (renderFinishedSemaphores so ! i) idx]"

text \<open>
  The slots used by a run that starts in slot \<open>i\<close>, one per iteration; a failed
  submission ends the run before its presentation.
\<close>

fun spec_run_calls :: "sync_objects \<Rightarrow> nat \<Rightarrow> driver_replies list \<Rightarrow> call list" where
  "spec_run_calls so i [] = []"
| "spec_run_calls so i (r # rs) =
     (if submitResult r = VK_SUCCESS
      then spec_slot_calls so i (imageIndex r) @ spec_run_calls so ((i + 1) mod 2) rs
      else butlast (spec_slot_calls so i (imageIndex r)))"




definition is_submit :: "call \<times> VkResult \<Rightarrow> bool" where
  "is_submit e = (case fst e of QueueSubmit m ws ss f \<Rightarrow> True | _ \<Rightarrow> False)"



section \<open>Loading a binary shader\<close>

text \<open>
  \<open>LoadSPIRV\<close> of vktriangle.cpp (lines 1034-1055); the other four rendering examples
  hold the same function, character for character.
  \<^verbatim>\<open>
    std::ifstream file(name, std::ios::ate | std::ios::binary);
    if (!file.is_open()) { throw std::runtime_error("failed to open file: " + name); }
    size_t fileSize = (size_t) file.tellg();
    if ((fileSize % sizeof(uint32_t)) != 0) {
        throw std::runtime_error("spirv file is not divisable by 4: " + name);
    }
    std::vector<uint32_t> buffer(fileSize / sizeof(uint32_t));
    file.seekg(0);
    file.read((char*)buffer.data(), fileSize);
    file.close();
    return buffer;
  \<close>
  The file system maps a name to the bytes of the file; a name without a file cannot be
  opened. A \<open>uint32_t\<close> occupies four bytes of memory, lowest byte first (the
  little-endian hosts the examples are built for).
\<close>

type_synonym filesystem = "string \<rightharpoonup> byte list"

definition le32 :: "byte \<Rightarrow> byte \<Rightarrow> byte \<Rightarrow> byte \<Rightarrow> 32 word" where
  "le32 b0 b1 b2 b3 =
     ucast b0 OR push_bit 8 (ucast b1) OR push_bit 16 (ucast b2) OR push_bit 24 (ucast b3)"

definition bytes_of_word :: "32 word \<Rightarrow> byte list" where
  "bytes_of_word w =
     [ucast w, ucast (drop_bit 8 w), ucast (drop_bit 16 w), ucast (drop_bit 24 w)]"

text \<open>The memory of a vector of words as bytes, and the words held by such memory.\<close>

definition bytes_of_words :: "32 word list \<Rightarrow> byte list" where
  "bytes_of_words ws = concat (map bytes_of_word ws)"

fun words_of_bytes :: "byte list \<Rightarrow> 32 word list" where
  "words_of_bytes (b0 # b1 # b2 # b3 # bs) = le32 b0 b1 b2 b3 # words_of_bytes bs"
| "words_of_bytes bs = []"

text \<open>
  \<open>file.read((char*)buffer.data(), fileSize)\<close> after \<open>seekg(0)\<close>: the first \<open>fileSize\<close>
  bytes of the file replace the first \<open>fileSize\<close> bytes of the vector's memory.
\<close>

definition file_read :: "32 word list \<Rightarrow> byte list \<Rightarrow> nat \<Rightarrow> 32 word list" where
  "file_read buffer content fileSize =
     words_of_bytes (take fileSize content @ drop fileSize (bytes_of_words buffer))"

definition LoadSPIRV :: "filesystem \<Rightarrow> string \<Rightarrow> error + 32 word list" where
  "LoadSPIRV fs name =
     (case fs name of
        None \<Rightarrow> Inl (Runtime_error (''failed to open file: '' @ name))
      | Some content \<Rightarrow>
          (let fileSize = length content in
           if fileSize mod 4 \<noteq> 0
           then Inl (Runtime_error (''spirv file is not divisable by 4: '' @ name))
           else (let buffer = replicate (fileSize div 4) (0 :: 32 word)
                 in Inr (file_read buffer content fileSize))))"

section \<open>The compute shader\<close>

text \<open>
  compute.comp, the shader of the compute example:
  \<^verbatim>\<open>
    layout(local_size_x = 16, local_size_y = 16) in;
    void main() {
        ivec2 size = imageSize(u_input_image);
        ivec2 pixel_coord = ivec2(gl_GlobalInvocationID.xy);
        if (pixel_coord.x < size.x && pixel_coord.y < size.y) {
            vec4 pixel = imageLoad(u_input_image, pixel_coord);
            vec3 invert = 1.0 - pixel.rgb;
            imageStore(u_output_image, pixel_coord, vec4(invert, 1.0));
        }
    }
  \<close>
  \<open>gl_GlobalInvocationID\<close> is a \<open>uvec3\<close>, three unsigned 32-bit integers; the constructor
  \<open>ivec2\<close> keeps their bits, which is the same number for every component below
  \<open>2^31\<close>. The components of \<open>size\<close> are 32-bit \<open>int\<close>s as well. Channel values are
  real numbers here: the arithmetic of the shader is taken as exact.
\<close>

type_synonym vec3 = "real \<times> real \<times> real"
type_synonym vec4 = "real \<times> real \<times> real \<times> real"
type_synonym ivec2 = "int \<times> int"
type_synonym uvec3 = "32 word \<times> 32 word \<times> 32 word"
type_synonym image2D = "ivec2 \<Rightarrow> vec4"

text \<open>
  One invocation: the result is the image store it performs, the coordinate and the
  value, or \<open>None\<close> when it performs none.
\<close>

definition compute_main :: "32 word \<times> 32 word \<Rightarrow> image2D \<Rightarrow> uvec3 \<Rightarrow> (ivec2 \<times> vec4) option" where
  "compute_main imageSize u_input_image gl_GlobalInvocationID =
     (case gl_GlobalInvocationID of (gx, gy, gz) \<Rightarrow>
        let pixel_coord = (sint gx, sint gy) in
        if fst pixel_coord < sint (fst imageSize) \<and> snd pixel_coord < sint (snd imageSize)
        then (case u_input_image pixel_coord of (r, g, b, a) \<Rightarrow>
                Some (pixel_coord, (1.0 - r, 1.0 - g, 1.0 - b, 1.0)))
        else None)"

fun imageStore :: "image2D \<Rightarrow> (ivec2 \<times> vec4) option \<Rightarrow> image2D" where
  "imageStore u_output_image None = u_output_image"
| "imageStore u_output_image (Some (P, data)) = u_output_image(P := data)"

text \<open>
  \<open>vkCmdDispatch(cmdBuffer, groupCountX, groupCountY, groupCountZ)\<close> runs one invocation
  for each identifier below the group counts times the local size 16 x 16 x 1. The
  invocations read one image and write another, so the order in which the model runs
  them does not matter.
\<close>

definition invocation_ids :: "nat \<Rightarrow> nat \<Rightarrow> nat \<Rightarrow> uvec3 list" where
  "invocation_ids groupCountX groupCountY groupCountZ =
     concat (map (\<lambda>z. concat (map (\<lambda>y. map (\<lambda>x. (of_nat x, of_nat y, of_nat z))
                                          [0..<groupCountX * 16])
                                [0..<groupCountY * 16]))
              [0..<groupCountZ * 1])"

definition dispatch :: "32 word \<times> 32 word \<Rightarrow> image2D \<Rightarrow> image2D \<Rightarrow> uvec3 list \<Rightarrow> image2D" where
  "dispatch imageSize u_input_image u_output_image ids =
     fold (\<lambda>gid out. imageStore out (compute_main imageSize u_input_image gid))
       ids u_output_image"

text \<open>
  The host side (vkcompute.cpp): both images are 256 x 256, and the command buffer holds
  \<open>vkCmdDispatch(cmdBuffer, 256 / 16, 256/16, 1)\<close>.
\<close>

definition vkcompute_dispatch :: "image2D \<Rightarrow> image2D \<Rightarrow> image2D" where
  "vkcompute_dispatch sourceImage destinationImage =
     dispatch (256, 256) sourceImage destinationImage
       (invocation_ids (256 div 16) (256 div 16) 1)"

definition invert :: "vec4 \<Rightarrow> vec4" where
  "invert pixel = (case pixel of (r, g, b, a) \<Rightarrow> (1 - r, 1 - g, 1 - b, 1))"

section \<open>The shaders of the multi-subpass example\<close>


text \<open>
  The render pass clears each of the four attachments at its start
  (\<open>VK_ATTACHMENT_LOAD_OP_CLEAR\<close>) to \<open>clearColor = {0.0f, 0.0f, 0.0f, 1.0f}\<close>. Subpass 1
  has the blue attachment as its only colour attachment, so the blue triangle writes
  nothing but the blue attachment.
\<close>

definition clearColor :: vec4 where
  "clearColor = (0.0, 0.0, 0.0, 1.0)"

text \<open>
  subpass_2_compose.frag, which reads the three attachments as subpass inputs:
  \<^verbatim>\<open>
    const vec3 target = vec3(0.01, 0.01, 0.01);
    float colorRed = subpassLoad(samplerRed).r;
    float colorGreen = subpassLoad(samplerGreen).g;
    float colorBlue = subpassLoad(samplerBlue).b;
    vec3 color = vec3(colorRed, colorGreen, colorBlue);
    if (any(lessThan(color, target))) {
        // outside of any colored parts
        color = vec3(0.1, 0.1, 0.1);
        color.rgb *= vec3(int(mod(gl_FragCoord.x, 40) < 20));
        color.rgb *= vec3(int(mod(gl_FragCoord.y, 40) < 20));
    }
    outColor = vec4(color, 1.0);
  \<close>
  \<open>mod(x, y)\<close> of GLSL is \<open>x - y * floor(x / y)\<close>, and \<open>int\<close> of a \<open>bool\<close> is 1 or 0.
  The shader computes with 32-bit floating-point values. A channel is the real number
  its float stands for; the literals \<open>0.01\<close> and \<open>0.1\<close> are the floats nearest to them,
  with the bit patterns 0x3C23D70A and 0x3DCCCCCD; comparisons of floats and products
  with 0 and 1 are exact, and so is \<open>mod(x, 40)\<close> at the pixel centres that
  \<open>gl_FragCoord\<close> takes.
\<close>

definition float_0_01 :: real where
  "float_0_01 = 10737418 / 2 ^ 30"

definition float_0_1 :: real where
  "float_0_1 = 13421773 / 2 ^ 27"

definition glsl_mod :: "real \<Rightarrow> real \<Rightarrow> real" where
  "glsl_mod x y = x - y * of_int \<lfloor>x / y\<rfloor>"

definition int_of_bool :: "bool \<Rightarrow> real" where
  "int_of_bool b = (if b then 1 else 0)"

definition compose_main :: "vec4 \<Rightarrow> vec4 \<Rightarrow> vec4 \<Rightarrow> real \<times> real \<Rightarrow> vec4" where
  "compose_main samplerRed samplerGreen samplerBlue gl_FragCoord =
     (let target = (float_0_01, float_0_01, float_0_01) :: vec3;
          colorRed = (case samplerRed of (r, g, b, a) \<Rightarrow> r);
          colorGreen = (case samplerGreen of (r, g, b, a) \<Rightarrow> g);
          colorBlue = (case samplerBlue of (r, g, b, a) \<Rightarrow> b);
          color = (colorRed, colorGreen, colorBlue);
          color' =
            (if colorRed < fst target \<or> colorGreen < fst (snd target)
                \<or> colorBlue < snd (snd target)
             then (let c = float_0_1;
                       kx = int_of_bool (glsl_mod (fst gl_FragCoord) 40 < 20);
                       ky = int_of_bool (glsl_mod (snd gl_FragCoord) 40 < 20)
                   in (c * kx * ky, c * kx * ky, c * kx * ky))
             else color)
      in (case color' of (r, g, b) \<Rightarrow> (r, g, b, 1.0)))"

text \<open>The background the claim describes: gray 0.1 in the squares, black elsewhere.\<close>

definition checkerboard :: "real \<times> real \<Rightarrow> vec4" where
  "checkerboard gl_FragCoord =
     (if glsl_mod (fst gl_FragCoord) 40 < 20 \<and> glsl_mod (snd gl_FragCoord) 40 < 20
      then (float_0_1, float_0_1, float_0_1, 1) else (0, 0, 0, 1))"

section \<open>Properties of the environment decoding\<close>

lemma c_str_no_nul: "CHR 0x00 \<notin> set (c_str s)"
  unfolding c_str_def by (induction s) auto

lemma strncmp_one:
  assumes "CHR 0x00 \<notin> set v"
  shows "strncmp ''1'' v 2 = 0 \<longleftrightarrow> v = ''1''"
proof (cases v)
  case Nil
  then show ?thesis by (simp add: numeral_2_eq_2)
next
  case (Cons d ds)
  note v = this
  have one: "of_char d = (49::nat) \<longleftrightarrow> d = CHR ''1''"
    using of_char_eq_iff [of d "CHR ''1''", where ?'a = nat] by simp
  show ?thesis
  proof (cases ds)
    case Nil
    with v one show ?thesis
      by (auto simp: numeral_2_eq_2)
  next
    case (Cons e es)
    with v assms have "e \<noteq> CHR 0x00" by auto
    then have "of_char e \<noteq> (0::nat)"
      by (cases e) auto
    with v Cons one show ?thesis
      by (auto simp: numeral_2_eq_2)
  qed
qed

lemma enableValidationLayers_iff:
  "enableValidationLayers env \<longleftrightarrow> getenv env ''DEMO_USE_VALIDATION'' = Some ''1''"
proof (cases "env ''DEMO_USE_VALIDATION''")
  case None
  then show ?thesis by (simp add: enableValidationLayers_def getenv_def)
next
  case (Some s)
  then show ?thesis
    using strncmp_one [OF c_str_no_nul, of s]
    by (simp add: enableValidationLayers_def getenv_def)
qed

text \<open>
  C7 (as amended). For every run of each of the five rendering examples, the validation
  layers are enabled if and only if DEMO_USE_VALIDATION is set to exactly the string "1"
  (otherwise no layer is enabled), and the image dump of main goes to the value of
  DEMO_OUTPUT when that variable is set and to out.ppm otherwise; the decoding is the
  same in the five of them. The information tool vkmininfo reads no environment
  variable: it never enables a layer and writes no file.
\<close>

theorem C7_env_decoding:
  "(ex \<noteq> Vkmininfo \<longrightarrow>
      (enabled_layers ex env = g_validationLayers
         \<longleftrightarrow> getenv env ''DEMO_USE_VALIDATION'' = Some ''1'')
    \<and> (getenv env ''DEMO_USE_VALIDATION'' \<noteq> Some ''1'' \<longrightarrow> enabled_layers ex env = [])
    \<and> dump_file ex env =
        Some (case getenv env ''DEMO_OUTPUT'' of None \<Rightarrow> ''out.ppm'' | Some v \<Rightarrow> v)
    \<and> enabled_layers ex env = enabled_layers Vktriangle env
    \<and> dump_file ex env = dump_file Vktriangle env)
   \<and> enabled_layers Vkmininfo env = [] \<and> dump_file Vkmininfo env = None"
  by (cases ex) (simp_all add: enableValidationLayers_iff outputFileName_def
      g_validationLayers_def)

theorem C7_env_decoding_witness:
  "Vktriangle_glfw \<noteq> Vkmininfo
   \<and> enabled_layers Vktriangle_glfw
        [''DEMO_USE_VALIDATION'' \<mapsto> ''1'', ''DEMO_OUTPUT'' \<mapsto> ''a.ppm'']
       = g_validationLayers
   \<and> getenv [''DEMO_USE_VALIDATION'' \<mapsto> ''1'', ''DEMO_OUTPUT'' \<mapsto> ''a.ppm'']
        ''DEMO_USE_VALIDATION'' = Some ''1''
   \<and> dump_file Vktriangle_glfw
        [''DEMO_USE_VALIDATION'' \<mapsto> ''1'', ''DEMO_OUTPUT'' \<mapsto> ''a.ppm'']
       = Some ''a.ppm''
   \<and> Vkcompute \<noteq> Vkmininfo
   \<and> getenv [''DEMO_USE_VALIDATION'' \<mapsto> ''10''] ''DEMO_USE_VALIDATION'' \<noteq> Some ''1''
   \<and> enabled_layers Vkcompute [''DEMO_USE_VALIDATION'' \<mapsto> ''10''] = []
   \<and> dump_file Vkcompute [''DEMO_USE_VALIDATION'' \<mapsto> ''10''] = Some ''out.ppm''"
  using C7_env_decoding [of Vktriangle_glfw
      "[''DEMO_USE_VALIDATION'' \<mapsto> ''1'', ''DEMO_OUTPUT'' \<mapsto> ''a.ppm'']"]
    C7_env_decoding [of Vkcompute "[''DEMO_USE_VALIDATION'' \<mapsto> ''10'']"]
  by (simp add: getenv_def c_str_def)

text \<open>
  The claim as stated ("every example") fails at vkmininfo: with DEMO_USE_VALIDATION set
  to "1" it still creates its instance without any layer.
\<close>

theorem C7_counterexample:
  "getenv [''DEMO_USE_VALIDATION'' \<mapsto> ''1''] ''DEMO_USE_VALIDATION'' = Some ''1''
   \<and> enabled_layers Vkmininfo [''DEMO_USE_VALIDATION'' \<mapsto> ''1''] \<noteq> g_validationLayers
   \<and> dump_file Vkmininfo [''DEMO_USE_VALIDATION'' \<mapsto> ''1''] \<noteq> Some ''out.ppm''"
  by (simp add: getenv_def c_str_def g_validationLayers_def)

section \<open>Properties of the image dump\<close>

lemma upt_0_Suc_shift: "[0..<Suc n] = 0 # map Suc [0..<n]"
  by (simp add: upt_conv_Cons map_Suc_upt del: upt_Suc)

lemma write_row_eq:
  "write_row mem w x row out = out @ row_bytes mem (w - x) row"
proof (induction mem w x row out rule: write_row.induct)
  case (1 mem w x row out)
  show ?case
  proof (cases "x < w")
    case True
    then have w: "w - x = Suc (w - Suc x)" by simp
    have "write_row mem w x row out
        = write_row mem w (Suc x) (row + 4) (out @ [mem row, mem (row + 1), mem (row + 2)])"
      using True by (subst write_row.simps) simp
    also have "\<dots> = (out @ [mem row, mem (row + 1), mem (row + 2)])
                     @ row_bytes mem (w - Suc x) (row + 4)"
      by (rule 1 [OF True])
    also have "\<dots> = out @ row_bytes mem (w - x) row"
      unfolding w row_bytes_def upt_0_Suc_shift
      by (simp add: rgb_at_def comp_def add.assoc del: upt_Suc)
    finally show ?thesis .
  next
    case False
    then show ?thesis by (subst write_row.simps) (simp add: row_bytes_def)
  qed
qed

lemma payload_Suc:
  "payload mem w (Suc n) pitch data = row_bytes mem w data @ payload mem w n pitch (data + pitch)"
  unfolding payload_def upt_0_Suc_shift
  by (simp add: comp_def add.assoc del: upt_Suc)

lemma write_rows_eq:
  "write_rows mem w h pitch y data out = out @ payload mem w (h - y) pitch data"
proof (induction mem w h pitch y data out rule: write_rows.induct)
  case (1 mem w h pitch y data out)
  show ?case
  proof (cases "y < h")
    case True
    then have h: "h - y = Suc (h - Suc y)" by simp
    have "write_rows mem w h pitch y data out
        = write_rows mem w h pitch (Suc y) (data + pitch) (write_row mem w 0 data out)"
      using True by (subst write_rows.simps) simp
    also have "\<dots> = write_row mem w 0 data out @ payload mem w (h - Suc y) pitch (data + pitch)"
      by (rule 1 [OF True])
    also have "\<dots> = out @ payload mem w (h - y) pitch data"
      unfolding h payload_Suc write_row_eq by simp
    finally show ?thesis .
  next
    case False
    then show ?thesis by (subst write_rows.simps) (simp add: payload_def)
  qed
qed

lemma length_row_bytes: "length (row_bytes mem w a) = 3 * w"
  unfolding row_bytes_def by (induction w) (simp_all add: rgb_at_def)

lemma length_payload: "length (payload mem w h pitch data) = 3 * w * h"
  unfolding payload_def by (induction h) (simp_all add: length_row_bytes)

lemma nth_concat_fixed:
  assumes "\<forall>xs \<in> set xss. length xs = k" and "i < length xss" and "j < k"
  shows "concat xss ! (k * i + j) = xss ! i ! j"
  using assms
proof (induction xss arbitrary: i)
  case Nil
  then show ?case by simp
next
  case (Cons xs xss)
  show ?case
  proof (cases i)
    case 0
    with Cons.prems show ?thesis by (simp add: nth_append)
  next
    case (Suc i')
    with Cons.prems have "concat xss ! (k * i' + j) = xss ! i' ! j"
      by (intro Cons.IH) auto
    moreover have "length xs = k" using Cons.prems by simp
    ultimately show ?thesis using Suc by (simp add: nth_append add.assoc)
  qed
qed

lemma nth_row_bytes:
  assumes "x < w" and "c < 3"
  shows "row_bytes mem w a ! (3 * x + c) = mem (a + 4 * x + c)"
proof -
  have "row_bytes mem w a ! (3 * x + c) = map (\<lambda>k. rgb_at mem (a + 4 * k)) [0..<w] ! x ! c"
    unfolding row_bytes_def using assms
    by (intro nth_concat_fixed) (auto simp: rgb_at_def)
  also have "\<dots> = rgb_at mem (a + 4 * x) ! c"
    using assms by simp
  also have "\<dots> = mem (a + 4 * x + c)"
  proof -
    have "c = 0 \<or> c = 1 \<or> c = 2" using assms(2) by arith
    then show ?thesis by (auto simp: rgb_at_def)
  qed
  finally show ?thesis .
qed

lemma nth_payload:
  assumes "y < h" and "x < w" and "c < 3"
  shows "payload mem w h pitch data ! (3 * w * y + (3 * x + c))
         = mem (data + pitch * y + 4 * x + c)"
proof -
  have "3 * x + c < 3 * w" using assms by simp
  then have "payload mem w h pitch data ! (3 * w * y + (3 * x + c))
           = map (\<lambda>j. row_bytes mem w (data + pitch * j)) [0..<h] ! y ! (3 * x + c)"
    unfolding payload_def using assms
    by (intro nth_concat_fixed) (auto simp: length_row_bytes)
  also have "\<dots> = row_bytes mem w (data + pitch * y) ! (3 * x + c)"
    using assms by simp
  also have "\<dots> = mem (data + pitch * y + 4 * x + c)"
    using assms(2,3) by (rule nth_row_bytes)
  finally show ?thesis .
qed

lemma write_ppm_eq:
  "write_ppm w h mem mapped L
     = ppm_header w h @ payload mem w h (rowPitch L) (mapped + offset L)"
  by (simp add: write_ppm_def write_rows_eq)

lemma digit_char_value: "d < 10 \<Longrightarrow> of_char (digit_char d) = 48 + d"
proof -
  assume "d < 10"
  then have "d \<in> {0, 1, 2, 3, 4, 5, 6, 7, 8, 9}" by auto
  then show ?thesis
    unfolding digit_char_def by (elim insertE emptyE) simp_all
qed

lemma parse_decimal_snoc:
  "parse_decimal (s @ [c]) = 10 * parse_decimal s + (of_char c - 48)"
  by (simp add: parse_decimal_def)

lemma parse_decimal_decimal: "parse_decimal (decimal n) = n"
proof (induction n rule: decimal.induct)
  case (1 n)
  show ?case
  proof (cases "n < 10")
    case True
    then show ?thesis
      by (subst decimal.simps) (simp add: parse_decimal_def digit_char_value)
  next
    case False
    then have "parse_decimal (decimal n)
        = 10 * parse_decimal (decimal (n div 10)) + (of_char (digit_char (n mod 10)) - 48)"
      by (subst decimal.simps) (simp add: parse_decimal_snoc)
    also have "\<dots> = 10 * (n div 10) + n mod 10"
      using 1 False by (simp add: digit_char_value)
    finally show ?thesis by simp
  qed
qed

lemma decimal_255: "decimal 255 = ''255''"
  by code_simp

text \<open>
  C1 (as amended). The dumped file is the header "P6\n<width>\n<height>\n255\n" with the
  configured render width and height in decimal, followed by exactly 3 * width * height
  bytes: row-major triplets, the first three bytes of each four-byte pixel (the alpha
  byte is dropped), the rows packed one after the other, so that the row stride inside
  the file is 3 * width. The device's row pitch is the stride with which the rows are
  read from the mapped image memory.
\<close>

theorem C1_ppm_dump:
  "take (length (ppm_header w h)) (write_ppm w h mem mapped L)
     = bytes_of (''P6'' @ [CHR 0x0A] @ decimal w @ [CHR 0x0A] @ decimal h @ [CHR 0x0A]
                 @ ''255'' @ [CHR 0x0A])
   \<and> parse_decimal (decimal w) = w \<and> parse_decimal (decimal h) = h
   \<and> length (write_ppm w h mem mapped L) = length (ppm_header w h) + 3 * w * h
   \<and> (y < h \<and> x < w \<and> c < 3 \<longrightarrow>
        write_ppm w h mem mapped L ! (length (ppm_header w h) + (3 * w * y + (3 * x + c)))
          = mem (mapped + offset L + rowPitch L * y + 4 * x + c))"
proof -
  have "take (length (ppm_header w h)) (write_ppm w h mem mapped L)
     = bytes_of (''P6'' @ [CHR 0x0A] @ decimal w @ [CHR 0x0A] @ decimal h @ [CHR 0x0A]
                 @ ''255'' @ [CHR 0x0A])"
    by (simp add: write_ppm_eq ppm_header_def decimal_255)
  moreover have "length (write_ppm w h mem mapped L) = length (ppm_header w h) + 3 * w * h"
    by (simp add: write_ppm_eq length_payload)
  moreover have "write_ppm w h mem mapped L ! (length (ppm_header w h) + (3 * w * y + (3 * x + c)))
          = mem (mapped + offset L + rowPitch L * y + 4 * x + c)"
    if "y < h" "x < w" "c < 3"
    using nth_payload [OF that] by (simp add: write_ppm_eq nth_append)
  ultimately show ?thesis by (simp add: parse_decimal_decimal)
qed

lemma ppm_header_2_2: "length (ppm_header 2 2) = 11"
  by code_simp

theorem C1_ppm_dump_witness:
  "(1::nat) < 2 \<and> (2::nat) < 3
   \<and> length (write_ppm 2 2 (\<lambda>a. of_nat a) 100 \<lparr>offset = 4, rowPitch = 16\<rparr>) = 23
   \<and> write_ppm 2 2 (\<lambda>a. of_nat a) 100 \<lparr>offset = 4, rowPitch = 16\<rparr> ! 22 = 126"
  using C1_ppm_dump [of 2 2 "\<lambda>a. of_nat a" 100 "\<lparr>offset = 4, rowPitch = 16\<rparr>" 1 1 2]
  by (simp add: ppm_header_2_2)

text \<open>
  The claim as stated gives the written pixel data the row pitch as its row stride. For
  a 1 x 2 image with row pitch 8 the file holds 6 bytes of pixel data, not 2 * 8: the
  second row starts 3 bytes (3 * width) after the first, and the padding of the first
  row (addresses 3 to 7) is not in the file.
\<close>

theorem C1_counterexample:
  "write_ppm 1 2 (\<lambda>a. of_nat a) 0 \<lparr>offset = 0, rowPitch = 8\<rparr>
     = [80, 54, 10, 49, 10, 50, 10, 50, 53, 53, 10] @ [0, 1, 2, 8, 9, 10]
   \<and> length [0, 1, 2, 8, 9, 10 :: byte] \<noteq> rowPitch \<lparr>offset = 0, rowPitch = 8\<rparr> * 2"
  by code_simp

text \<open>The header of the plain triangle example, which renders 256 x 256.\<close>

lemma vktriangle_header:
  "take 15 (vktriangle_dump mem mapped L)
     = bytes_of (''P6'' @ [CHR 0x0A] @ ''256'' @ [CHR 0x0A] @ ''256'' @ [CHR 0x0A]
                 @ ''255'' @ [CHR 0x0A])"
proof -
  have d: "decimal 256 = ''256''"
    by code_simp
  show ?thesis
    by (simp add: vktriangle_dump_def write_ppm_eq ppm_header_def bytes_of_def d decimal_255)
qed

text \<open>
  What reaches the file is the first three bytes of each pixel inside the image and
  nothing else: two mapped memories that agree on these bytes give the same file,
  wherever they are mapped and whatever their row pitch, padding and alpha bytes are.
\<close>

lemma dump_depends_on_rgb_only:
  assumes "\<forall>y < h. \<forall>x < w. \<forall>c < 3.
             mem1 (mapped1 + offset L1 + rowPitch L1 * y + 4 * x + c)
           = mem2 (mapped2 + offset L2 + rowPitch L2 * y + 4 * x + c)"
  shows "write_ppm w h mem1 mapped1 L1 = write_ppm w h mem2 mapped2 L2"
proof -
  have "payload mem1 w h (rowPitch L1) (mapped1 + offset L1)
      = payload mem2 w h (rowPitch L2) (mapped2 + offset L2)"
  proof (rule nth_equalityI)
    show "length (payload mem1 w h (rowPitch L1) (mapped1 + offset L1))
        = length (payload mem2 w h (rowPitch L2) (mapped2 + offset L2))"
      by (simp add: length_payload)
  next
    fix i
    assume "i < length (payload mem1 w h (rowPitch L1) (mapped1 + offset L1))"
    then have i: "i < 3 * w * h" by (simp add: length_payload)
    then have w0: "0 < w" by (cases w) simp_all
    define y where "y = i div (3 * w)"
    define x where "x = (i mod (3 * w)) div 3"
    define c where "c = i mod 3"
    have y: "y < h"
      unfolding y_def using i w0 by (simp add: less_mult_imp_div_less mult.commute)
    have x: "x < w"
      unfolding x_def using w0 by (simp add: less_mult_imp_div_less mult.commute)
    have c: "c < 3" unfolding c_def by simp
    have "i mod (3 * w) mod 3 = i mod 3"
      by (simp add: mod_mod_cancel)
    then have "3 * x + c = i mod (3 * w)"
      unfolding x_def c_def by (metis mult_div_mod_eq)
    then have idx: "i = 3 * w * y + (3 * x + c)"
      unfolding y_def by simp
    show "payload mem1 w h (rowPitch L1) (mapped1 + offset L1) ! i
        = payload mem2 w h (rowPitch L2) (mapped2 + offset L2) ! i"
      unfolding idx nth_payload [OF y x c] using assms y x c by simp
  qed
  then show ?thesis by (simp add: write_ppm_eq)
qed

section \<open>Properties of the draw and present loop\<close>

lemma idx_advance_any:
  "unat (((w :: 32 word) + 1) mod imagesInFlight) = (unat w + 1) mod 2"
  unfolding imagesInFlight_def
  apply (simp add: unat_mod unat_word_ariths)
  apply (simp add: mod_mod_cancel)
  done

lemma frame_iteration_calls:
  "map fst (fst (frame_iteration so r st)) =
     [PollEvents,
      WaitForFences (activeFences so ! unat (activeSyncIdx st)),
      AcquireNextImageKHR (imageAvailableSemaphores so ! unat (activeSyncIdx st))]
     @ (if swapImagesFences st ! imageIndex r \<noteq> VK_NULL_HANDLE
        then [WaitForFences (swapImagesFences st ! imageIndex r)] else [])
     @ [ResetFences (activeFences so ! unat (activeSyncIdx st)),
        QueueSubmit (imageIndex r) (imageAvailableSemaphores so ! unat (activeSyncIdx st))
          (renderFinishedSemaphores so ! unat (activeSyncIdx st))
          (activeFences so ! unat (activeSyncIdx st))]
     @ (if submitResult r = VK_SUCCESS
        then [QueuePresentKHR (renderFinishedSemaphores so ! unat (activeSyncIdx st))
                (imageIndex r)]
        else [])"
  by (simp add: frame_iteration_def Let_def)

lemma frame_iteration_state:
  "snd (frame_iteration so r st) =
     (if submitResult r \<noteq> VK_SUCCESS
      then Inl (Runtime_error ''failed to submit command buffer!'')
      else Inr \<lparr>activeSyncIdx = (activeSyncIdx st + 1) mod imagesInFlight,
                swapImagesFences =
                  (swapImagesFences st)[imageIndex r := activeFences so ! unat (activeSyncIdx st)]\<rparr>)"
  by (simp add: frame_iteration_def Let_def)

lemma frame_iteration_subseq:
  "subseq (if submitResult r = VK_SUCCESS
           then spec_slot_calls so (unat (activeSyncIdx st)) (imageIndex r)
           else butlast (spec_slot_calls so (unat (activeSyncIdx st)) (imageIndex r)))
     (map fst (fst (frame_iteration so r st)))"
  unfolding frame_iteration_calls by (simp add: spec_slot_calls_def)

lemma run_loop_Cons_ok:
  assumes "submitResult r = VK_SUCCESS"
  shows "run_loop so st (r # rs) =
           (fst (frame_iteration so r st)
              @ fst (run_loop so (projr (snd (frame_iteration so r st))) rs),
            snd (run_loop so (projr (snd (frame_iteration so r st))) rs))"
  using assms
  by (cases "frame_iteration so r st")
     (auto simp: frame_iteration_state split: prod.splits sum.splits if_splits
           dest: arg_cong [where f = snd])

lemma run_loop_Cons_abort:
  assumes "submitResult r \<noteq> VK_SUCCESS"
  shows "run_loop so st (r # rs) = frame_iteration so r st"
  using assms
  by (cases "frame_iteration so r st")
     (auto simp: frame_iteration_state split: prod.splits sum.splits if_splits
           dest: arg_cong [where f = snd])

lemma run_loop_subseq:
  "subseq (spec_run_calls so (unat (activeSyncIdx st)) rs) (map fst (fst (run_loop so st rs)))"
proof (induction rs arbitrary: st)
  case Nil
  then show ?case by simp
next
  case (Cons r rs)
  show ?case
  proof (cases "submitResult r = VK_SUCCESS")
    case True
    let ?st' = "projr (snd (frame_iteration so r st))"
    have idx: "unat (activeSyncIdx ?st') = (unat (activeSyncIdx st) + 1) mod 2"
      using True by (simp add: frame_iteration_state idx_advance_any)
    have "subseq (spec_slot_calls so (unat (activeSyncIdx st)) (imageIndex r))
            (map fst (fst (frame_iteration so r st)))"
      using frame_iteration_subseq [of r so st] True by simp
    moreover have "subseq (spec_run_calls so ((unat (activeSyncIdx st) + 1) mod 2) rs)
            (map fst (fst (run_loop so ?st' rs)))"
      using Cons.IH [of ?st'] idx by simp
    ultimately show ?thesis
      unfolding run_loop_Cons_ok [OF True] using True
      by (simp add: list_emb_append_mono del: run_loop.simps)
  next
    case False
    then show ?thesis
      unfolding run_loop_Cons_abort [OF False]
      using frame_iteration_subseq [of r so st] by simp
  qed
qed

lemma run_loop_index:
  assumes "unat (activeSyncIdx st) < 2" and "\<forall>r \<in> set rs. submitResult r = VK_SUCCESS"
  shows "\<exists>st'. snd (run_loop so st rs) = Inr st'
           \<and> unat (activeSyncIdx st') = (unat (activeSyncIdx st) + length rs) mod 2"
  using assms
proof (induction rs arbitrary: st)
  case Nil
  then show ?case by simp
next
  case (Cons r rs)
  let ?st' = "projr (snd (frame_iteration so r st))"
  have ok: "submitResult r = VK_SUCCESS" using Cons.prems by simp
  have idx: "unat (activeSyncIdx ?st') = (unat (activeSyncIdx st) + 1) mod 2"
    using ok by (simp add: frame_iteration_state idx_advance_any)
  then have "unat (activeSyncIdx ?st') < 2" by simp
  then obtain st'' where "snd (run_loop so ?st' rs) = Inr st''"
    and "unat (activeSyncIdx st'') = (unat (activeSyncIdx ?st') + length rs) mod 2"
    using Cons.IH [of ?st'] Cons.prems by auto
  then show ?case
    unfolding run_loop_Cons_ok [OF ok] using idx
    by (simp add: mod_add_left_eq mod_Suc_eq del: run_loop.simps)
qed

lemma run_loop_abort:
  "(\<exists>e. snd (run_loop so st rs) = Inl e) \<longleftrightarrow> (\<exists>r \<in> set rs. submitResult r \<noteq> VK_SUCCESS)"
proof (induction rs arbitrary: st)
  case Nil
  then show ?case by simp
next
  case (Cons r rs)
  show ?case
  proof (cases "submitResult r = VK_SUCCESS")
    case True
    show ?thesis
      unfolding run_loop_Cons_ok [OF True] using True Cons.IH
      by (simp del: run_loop.simps)
  next
    case False
    show ?thesis
      unfolding run_loop_Cons_abort [OF False] using False
      by (auto simp: frame_iteration_state)
  qed
qed









lemma subpass_frame_iteration_state:
  "mapResult u = VK_SUCCESS \<Longrightarrow>
     snd (subpass_frame_iteration so u sst) =
       (if submitResult (frameReplies u) \<noteq> VK_SUCCESS
        then Inl (Runtime_error ''failed to submit command buffer!'')
        else Inr \<lparr>uniformData = rotate 4 (uniformData sst),
                  uniformBuffer = rotate 4 (uniformData sst),
                  loopState = projr (snd (frame_iteration so (frameReplies u) (loopState sst)))\<rparr>)"
  by (simp add: subpass_frame_iteration_def Let_def frame_iteration_state)

lemma run_loop_abort_first:
  "(\<exists>e. snd (run_loop so st rs) = Inl e) \<longleftrightarrow> \<not> list_all (\<lambda>r. submitResult r = VK_SUCCESS) rs"
  unfolding run_loop_abort by (simp add: list_all_iff)

text \<open>
  C2 (as amended). In the frame driver loop a \<open>vkQueueSubmit\<close> that does not return
  \<open>VK_SUCCESS\<close> aborts the program (\<open>std::runtime_error\<close>, "failed to submit command
  buffer!"): the loop ends with that single submission as its last call, with no retry
  and no further call. In the loop of the subpass example a \<open>vkMapMemory\<close> that does not
  return \<open>VK_SUCCESS\<close> aborts in the same way ("failed to map uniform buffer!"), before
  any other call of the iteration. The result of the presentation is not looked at: when
  the other calls of an iteration succeed, the iteration ends in the same next state
  whatever \<open>vkQueuePresentKHR\<close> returns, and a run whose other calls succeed ends in an
  exception exactly when one of its submissions fails. The statement is about iterations
  whose acquisition has stored an image index.
\<close>

theorem C2_only_submit_aborts:
  "vectors_sized so \<and> indices_in_range st (r # rs) \<and> image_acquired r \<longrightarrow>
     (submitResult r \<noteq> VK_SUCCESS \<longrightarrow>
        snd (frame_iteration so r st) = Inl (Runtime_error ''failed to submit command buffer!'')
        \<and> run_loop so st (r # rs) = frame_iteration so r st
        \<and> length (filter is_submit (fst (frame_iteration so r st))) = 1
        \<and> is_submit (last (fst (frame_iteration so r st))))
     \<and> (sync_calls_succeed r \<and> submitResult r = VK_SUCCESS \<longrightarrow>
          (\<exists>st'. snd (frame_iteration so r st) = Inr st')
          \<and> snd (frame_iteration so r st)
              = snd (frame_iteration so (r\<lparr>presentResult := VK_SUCCESS\<rparr>) st))
     \<and> (list_all sync_calls_succeed rs \<longrightarrow>
          ((\<exists>e. snd (run_loop so st rs) = Inl e)
             \<longleftrightarrow> \<not> list_all (\<lambda>r. submitResult r = VK_SUCCESS) rs))
     \<and> (mapResult u \<noteq> VK_SUCCESS \<longrightarrow>
          subpass_frame_iteration so u sst
            = ([(LoopCall PollEvents, VK_SUCCESS), (MapMemory, mapResult u)],
               Inl (Runtime_error ''failed to map uniform buffer!'')))
     \<and> (mapResult u = VK_SUCCESS \<and> indices_in_range (loopState sst) [frameReplies u]
          \<and> image_acquired (frameReplies u) \<longrightarrow>
          (submitResult (frameReplies u) \<noteq> VK_SUCCESS \<longrightarrow>
             snd (subpass_frame_iteration so u sst)
               = Inl (Runtime_error ''failed to submit command buffer!''))
          \<and> (sync_calls_succeed (frameReplies u) \<and> submitResult (frameReplies u) = VK_SUCCESS \<longrightarrow>
               (\<exists>sst'. snd (subpass_frame_iteration so u sst) = Inr sst')))"
proof -
  have "run_loop so st (r # rs) = frame_iteration so r st" if "submitResult r \<noteq> VK_SUCCESS"
    using that by (rule run_loop_Cons_abort)
  moreover have "length (filter is_submit (fst (frame_iteration so r st))) = 1"
    by (simp add: frame_iteration_def Let_def is_submit_def)
  moreover have "is_submit (last (fst (frame_iteration so r st)))"
    if "submitResult r \<noteq> VK_SUCCESS"
    using that by (simp add: frame_iteration_def Let_def is_submit_def)
  moreover have "subpass_frame_iteration so u sst
            = ([(LoopCall PollEvents, VK_SUCCESS), (MapMemory, mapResult u)],
               Inl (Runtime_error ''failed to map uniform buffer!''))"
    if "mapResult u \<noteq> VK_SUCCESS"
    using that by (simp add: subpass_frame_iteration_def)
  ultimately show ?thesis
    using run_loop_abort_first [of so st rs]
    by (simp add: frame_iteration_state subpass_frame_iteration_state del: run_loop.simps)
qed

theorem C2_only_submit_aborts_witness:
  "vectors_sized
     \<lparr>imageAvailableSemaphores = [11, 12], renderFinishedSemaphores = [21, 22],
      activeFences = [31, 32]\<rparr>
   \<and> indices_in_range (initial_state 3)
       [\<lparr>waitResult = VK_SUCCESS, acquireResult = VK_SUCCESS, imageIndex = 0,
      guardWaitResult = VK_SUCCESS, resetResult = VK_SUCCESS,
      submitResult = VK_ERROR_DEVICE_LOST, presentResult = VK_SUCCESS\<rparr>]
   \<and> image_acquired
       \<lparr>waitResult = VK_SUCCESS, acquireResult = VK_SUCCESS, imageIndex = 0,
      guardWaitResult = VK_SUCCESS, resetResult = VK_SUCCESS,
      submitResult = VK_ERROR_DEVICE_LOST, presentResult = VK_SUCCESS\<rparr>
   \<and> snd (frame_iteration
         \<lparr>imageAvailableSemaphores = [11, 12], renderFinishedSemaphores = [21, 22],
      activeFences = [31, 32]\<rparr>
         \<lparr>waitResult = VK_SUCCESS, acquireResult = VK_SUCCESS, imageIndex = 0,
      guardWaitResult = VK_SUCCESS, resetResult = VK_SUCCESS,
      submitResult = VK_ERROR_DEVICE_LOST, presentResult = VK_SUCCESS\<rparr>
         (initial_state 3))
     = Inl (Runtime_error ''failed to submit command buffer!'')
   \<and> length (filter is_submit (fst (frame_iteration
         \<lparr>imageAvailableSemaphores = [11, 12], renderFinishedSemaphores = [21, 22],
      activeFences = [31, 32]\<rparr>
         \<lparr>waitResult = VK_SUCCESS, acquireResult = VK_SUCCESS, imageIndex = 0,
      guardWaitResult = VK_SUCCESS, resetResult = VK_SUCCESS,
      submitResult = VK_ERROR_DEVICE_LOST, presentResult = VK_SUCCESS\<rparr>
         (initial_state 3)))) = 1
   \<and> sync_calls_succeed
       \<lparr>waitResult = VK_SUCCESS, acquireResult = VK_SUCCESS, imageIndex = 0,
      guardWaitResult = VK_SUCCESS, resetResult = VK_SUCCESS,
      submitResult = VK_SUCCESS, presentResult = VK_ERROR_OUT_OF_DATE_KHR\<rparr>
   \<and> list_all sync_calls_succeed
       [\<lparr>waitResult = VK_SUCCESS, acquireResult = VK_SUCCESS, imageIndex = 0,
      guardWaitResult = VK_SUCCESS, resetResult = VK_SUCCESS,
      submitResult = VK_SUCCESS, presentResult = VK_ERROR_OUT_OF_DATE_KHR\<rparr>]
   \<and> (\<exists>st'. snd (frame_iteration
         \<lparr>imageAvailableSemaphores = [11, 12], renderFinishedSemaphores = [21, 22],
      activeFences = [31, 32]\<rparr>
         \<lparr>waitResult = VK_SUCCESS, acquireResult = VK_SUCCESS, imageIndex = 0,
      guardWaitResult = VK_SUCCESS, resetResult = VK_SUCCESS,
      submitResult = VK_SUCCESS, presentResult = VK_ERROR_OUT_OF_DATE_KHR\<rparr>
         (initial_state 3)) = Inr st')
   \<and> snd (frame_iteration
         \<lparr>imageAvailableSemaphores = [11, 12], renderFinishedSemaphores = [21, 22],
      activeFences = [31, 32]\<rparr>
         \<lparr>waitResult = VK_SUCCESS, acquireResult = VK_SUCCESS, imageIndex = 0,
      guardWaitResult = VK_SUCCESS, resetResult = VK_SUCCESS,
      submitResult = VK_SUCCESS, presentResult = VK_ERROR_OUT_OF_DATE_KHR\<rparr>
         (initial_state 3))
     = snd (frame_iteration
         \<lparr>imageAvailableSemaphores = [11, 12], renderFinishedSemaphores = [21, 22],
      activeFences = [31, 32]\<rparr>
         \<lparr>waitResult = VK_SUCCESS, acquireResult = VK_SUCCESS, imageIndex = 0,
      guardWaitResult = VK_SUCCESS, resetResult = VK_SUCCESS,
      submitResult = VK_SUCCESS, presentResult = VK_SUCCESS\<rparr>
         (initial_state 3))
   \<and> snd (run_loop
         \<lparr>imageAvailableSemaphores = [11, 12], renderFinishedSemaphores = [21, 22],
      activeFences = [31, 32]\<rparr>
         (initial_state 3)
         [\<lparr>waitResult = VK_SUCCESS, acquireResult = VK_SUCCESS, imageIndex = 0,
      guardWaitResult = VK_SUCCESS, resetResult = VK_SUCCESS,
      submitResult = VK_SUCCESS, presentResult = VK_ERROR_OUT_OF_DATE_KHR\<rparr>])
     \<noteq> Inl (Runtime_error ''failed to submit command buffer!'')
   \<and> subpass_frame_iteration
         \<lparr>imageAvailableSemaphores = [11, 12], renderFinishedSemaphores = [21, 22],
      activeFences = [31, 32]\<rparr>
         \<lparr>mapResult = VK_ERROR_OUT_OF_HOST_MEMORY, flushResult = VK_SUCCESS,
      frameReplies = \<lparr>waitResult = VK_SUCCESS, acquireResult = VK_SUCCESS, imageIndex = 0,
      guardWaitResult = VK_SUCCESS, resetResult = VK_SUCCESS,
      submitResult = VK_SUCCESS, presentResult = VK_SUCCESS\<rparr>\<rparr>
         \<lparr>uniformData = [1, 0, 0, 1, 0, 1, 0, 1], uniformBuffer = [1, 0, 0, 1, 0, 1, 0, 1],
      loopState = initial_state 3\<rparr>
     = ([(LoopCall PollEvents, VK_SUCCESS), (MapMemory, VK_ERROR_OUT_OF_HOST_MEMORY)],
        Inl (Runtime_error ''failed to map uniform buffer!''))
   \<and> indices_in_range (initial_state 3)
       [\<lparr>waitResult = VK_SUCCESS, acquireResult = VK_SUCCESS, imageIndex = 0,
      guardWaitResult = VK_SUCCESS, resetResult = VK_SUCCESS,
      submitResult = VK_SUCCESS, presentResult = VK_ERROR_OUT_OF_DATE_KHR\<rparr>, \<lparr>waitResult = VK_SUCCESS, acquireResult = VK_SUCCESS, imageIndex = 0,
      guardWaitResult = VK_SUCCESS, resetResult = VK_SUCCESS,
      submitResult = VK_SUCCESS, presentResult = VK_ERROR_OUT_OF_DATE_KHR\<rparr>]
   \<and> snd (subpass_frame_iteration
         \<lparr>imageAvailableSemaphores = [11, 12], renderFinishedSemaphores = [21, 22],
      activeFences = [31, 32]\<rparr>
         \<lparr>mapResult = VK_SUCCESS, flushResult = VK_SUCCESS,
      frameReplies = \<lparr>waitResult = VK_SUCCESS, acquireResult = VK_SUCCESS, imageIndex = 0,
      guardWaitResult = VK_SUCCESS, resetResult = VK_SUCCESS,
      submitResult = VK_ERROR_DEVICE_LOST, presentResult = VK_SUCCESS\<rparr>\<rparr>
         \<lparr>uniformData = [1, 0, 0, 1, 0, 1, 0, 1], uniformBuffer = [1, 0, 0, 1, 0, 1, 0, 1],
      loopState = initial_state 3\<rparr>)
     = Inl (Runtime_error ''failed to submit command buffer!'')
   \<and> (\<exists>sst'. snd (subpass_frame_iteration
         \<lparr>imageAvailableSemaphores = [11, 12], renderFinishedSemaphores = [21, 22],
      activeFences = [31, 32]\<rparr>
         \<lparr>mapResult = VK_SUCCESS, flushResult = VK_SUCCESS,
      frameReplies = \<lparr>waitResult = VK_SUCCESS, acquireResult = VK_SUCCESS, imageIndex = 0,
      guardWaitResult = VK_SUCCESS, resetResult = VK_SUCCESS,
      submitResult = VK_SUCCESS, presentResult = VK_ERROR_OUT_OF_DATE_KHR\<rparr>\<rparr>
         \<lparr>uniformData = [1, 0, 0, 1, 0, 1, 0, 1], uniformBuffer = [1, 0, 0, 1, 0, 1, 0, 1],
      loopState = initial_state 3\<rparr>) = Inr sst')"
  using C2_only_submit_aborts [of
      "\<lparr>imageAvailableSemaphores = [11, 12], renderFinishedSemaphores = [21, 22],
      activeFences = [31, 32]\<rparr>"
      "initial_state 3"
      "\<lparr>waitResult = VK_SUCCESS, acquireResult = VK_SUCCESS, imageIndex = 0,
      guardWaitResult = VK_SUCCESS, resetResult = VK_SUCCESS,
      submitResult = VK_ERROR_DEVICE_LOST, presentResult = VK_SUCCESS\<rparr>"
      "[]"
      "\<lparr>mapResult = VK_ERROR_OUT_OF_HOST_MEMORY, flushResult = VK_SUCCESS,
      frameReplies = \<lparr>waitResult = VK_SUCCESS, acquireResult = VK_SUCCESS, imageIndex = 0,
      guardWaitResult = VK_SUCCESS, resetResult = VK_SUCCESS,
      submitResult = VK_SUCCESS, presentResult = VK_SUCCESS\<rparr>\<rparr>"
      "\<lparr>uniformData = [1, 0, 0, 1, 0, 1, 0, 1], uniformBuffer = [1, 0, 0, 1, 0, 1, 0, 1],
      loopState = initial_state 3\<rparr>"]
    C2_only_submit_aborts [of
      "\<lparr>imageAvailableSemaphores = [11, 12], renderFinishedSemaphores = [21, 22],
      activeFences = [31, 32]\<rparr>"
      "initial_state 3"
      "\<lparr>waitResult = VK_SUCCESS, acquireResult = VK_SUCCESS, imageIndex = 0,
      guardWaitResult = VK_SUCCESS, resetResult = VK_SUCCESS,
      submitResult = VK_SUCCESS, presentResult = VK_ERROR_OUT_OF_DATE_KHR\<rparr>"
      "[\<lparr>waitResult = VK_SUCCESS, acquireResult = VK_SUCCESS, imageIndex = 0,
      guardWaitResult = VK_SUCCESS, resetResult = VK_SUCCESS,
      submitResult = VK_SUCCESS, presentResult = VK_ERROR_OUT_OF_DATE_KHR\<rparr>]"
      "\<lparr>mapResult = VK_SUCCESS, flushResult = VK_SUCCESS,
      frameReplies = \<lparr>waitResult = VK_SUCCESS, acquireResult = VK_SUCCESS, imageIndex = 0,
      guardWaitResult = VK_SUCCESS, resetResult = VK_SUCCESS,
      submitResult = VK_ERROR_DEVICE_LOST, presentResult = VK_SUCCESS\<rparr>\<rparr>"
      "\<lparr>uniformData = [1, 0, 0, 1, 0, 1, 0, 1], uniformBuffer = [1, 0, 0, 1, 0, 1, 0, 1],
      loopState = initial_state 3\<rparr>"]
    C2_only_submit_aborts [of
      "\<lparr>imageAvailableSemaphores = [11, 12], renderFinishedSemaphores = [21, 22],
      activeFences = [31, 32]\<rparr>"
      "initial_state 3"
      "\<lparr>waitResult = VK_SUCCESS, acquireResult = VK_SUCCESS, imageIndex = 0,
      guardWaitResult = VK_SUCCESS, resetResult = VK_SUCCESS,
      submitResult = VK_SUCCESS, presentResult = VK_ERROR_OUT_OF_DATE_KHR\<rparr>"
      "[\<lparr>waitResult = VK_SUCCESS, acquireResult = VK_SUCCESS, imageIndex = 0,
      guardWaitResult = VK_SUCCESS, resetResult = VK_SUCCESS,
      submitResult = VK_SUCCESS, presentResult = VK_ERROR_OUT_OF_DATE_KHR\<rparr>]"
      "\<lparr>mapResult = VK_SUCCESS, flushResult = VK_SUCCESS,
      frameReplies = \<lparr>waitResult = VK_SUCCESS, acquireResult = VK_SUCCESS, imageIndex = 0,
      guardWaitResult = VK_SUCCESS, resetResult = VK_SUCCESS,
      submitResult = VK_SUCCESS, presentResult = VK_ERROR_OUT_OF_DATE_KHR\<rparr>\<rparr>"
      "\<lparr>uniformData = [1, 0, 0, 1, 0, 1, 0, 1], uniformBuffer = [1, 0, 0, 1, 0, 1, 0, 1],
      loopState = initial_state 3\<rparr>"]
  by (simp add: vectors_sized_def indices_in_range_def initial_state_def image_acquired_def
      sync_calls_succeed_def del: run_loop.simps)

text \<open>
  The claim as stated fails: a presentation that returns \<open>VK_ERROR_OUT_OF_DATE_KHR\<close>,
  every other call of the iteration having succeeded, does not abort; the loop goes on
  to the next slot.
\<close>

theorem C2_counterexample:
  "frame_iteration
     \<lparr>imageAvailableSemaphores = [11, 12], renderFinishedSemaphores = [21, 22],
      activeFences = [31, 32]\<rparr>
     \<lparr>waitResult = VK_SUCCESS, acquireResult = VK_SUCCESS, imageIndex = 0,
      guardWaitResult = VK_SUCCESS, resetResult = VK_SUCCESS,
      submitResult = VK_SUCCESS, presentResult = VK_ERROR_OUT_OF_DATE_KHR\<rparr>
     (initial_state 3)
   = ([(PollEvents, VK_SUCCESS),
       (WaitForFences 31, VK_SUCCESS),
       (AcquireNextImageKHR 11, VK_SUCCESS),
       (ResetFences 31, VK_SUCCESS),
       (QueueSubmit 0 11 21 31, VK_SUCCESS),
       (QueuePresentKHR 21 0, VK_ERROR_OUT_OF_DATE_KHR)],
      Inr \<lparr>activeSyncIdx = 1, swapImagesFences = [31, 0, 0]\<rparr>)"
  by (simp add: frame_iteration_def Let_def initial_state_def VK_NULL_HANDLE_def
      imagesInFlight_def numeral_3_eq_3)

text \<open>
  C3. The in-flight slot index of the frame driver loop stays in [0, 2): every iteration
  waits on the completion fence of slot i, acquires the next image index, submits the
  command buffer of that image (waiting for the image-available semaphore of slot i,
  signalling the render-finished semaphore and the fence of slot i), requests the
  presentation gated on that semaphore, in this order, and goes on with slot
  (i + 1) mod 2. (An iteration whose submission fails throws before the presentation.)
\<close>

theorem C3_frame_loop_order:
  "vectors_sized so \<and> indices_in_range st (r # rs) \<longrightarrow>
     subseq (spec_run_calls so (unat (activeSyncIdx st)) rs)
       (map fst (fst (run_loop so st rs)))
     \<and> (submitResult r = VK_SUCCESS \<longrightarrow>
          (\<exists>st'. snd (frame_iteration so r st) = Inr st'
             \<and> unat (activeSyncIdx st') = (unat (activeSyncIdx st) + 1) mod 2
             \<and> unat (activeSyncIdx st') < 2))
     \<and> ((\<forall>r \<in> set rs. submitResult r = VK_SUCCESS) \<longrightarrow>
          (\<exists>st'. snd (run_loop so st rs) = Inr st'
             \<and> unat (activeSyncIdx st') = (unat (activeSyncIdx st) + length rs) mod 2
             \<and> unat (activeSyncIdx st') < 2))"
proof -
  have "\<exists>st'. snd (frame_iteration so r st) = Inr st'
             \<and> unat (activeSyncIdx st') = (unat (activeSyncIdx st) + 1) mod 2
             \<and> unat (activeSyncIdx st') < 2"
    if "submitResult r = VK_SUCCESS"
    using that by (simp add: frame_iteration_state idx_advance_any)
  moreover have "\<exists>st'. snd (run_loop so st rs) = Inr st'
             \<and> unat (activeSyncIdx st') = (unat (activeSyncIdx st) + length rs) mod 2
             \<and> unat (activeSyncIdx st') < 2"
    if "unat (activeSyncIdx st) < 2" "\<forall>r \<in> set rs. submitResult r = VK_SUCCESS"
    using run_loop_index [OF that, of so] by auto
  ultimately show ?thesis
    using run_loop_subseq [of so st rs] unfolding indices_in_range_def by blast
qed

theorem C3_frame_loop_order_witness:
  "vectors_sized
     \<lparr>imageAvailableSemaphores = [11, 12], renderFinishedSemaphores = [21, 22],
      activeFences = [31, 32]\<rparr>
   \<and> indices_in_range (initial_state 3)
       [\<lparr>waitResult = VK_SUCCESS, acquireResult = VK_SUCCESS, imageIndex = 2,
         guardWaitResult = VK_SUCCESS, resetResult = VK_SUCCESS,
         submitResult = VK_SUCCESS, presentResult = VK_SUCCESS\<rparr>,
        \<lparr>waitResult = VK_SUCCESS, acquireResult = VK_SUCCESS, imageIndex = 2,
         guardWaitResult = VK_SUCCESS, resetResult = VK_SUCCESS,
         submitResult = VK_SUCCESS, presentResult = VK_SUCCESS\<rparr>,
        \<lparr>waitResult = VK_SUCCESS, acquireResult = VK_SUCCESS, imageIndex = 2,
         guardWaitResult = VK_SUCCESS, resetResult = VK_SUCCESS,
         submitResult = VK_SUCCESS, presentResult = VK_SUCCESS\<rparr>]
   \<and> subseq
       [WaitForFences 31, AcquireNextImageKHR 11, QueueSubmit 2 11 21 31, QueuePresentKHR 21 2,
        WaitForFences 32, AcquireNextImageKHR 12, QueueSubmit 2 12 22 32, QueuePresentKHR 22 2]
       (map fst (fst (run_loop
          \<lparr>imageAvailableSemaphores = [11, 12], renderFinishedSemaphores = [21, 22],
           activeFences = [31, 32]\<rparr>
          (initial_state 3)
          [\<lparr>waitResult = VK_SUCCESS, acquireResult = VK_SUCCESS, imageIndex = 2,
            guardWaitResult = VK_SUCCESS, resetResult = VK_SUCCESS,
            submitResult = VK_SUCCESS, presentResult = VK_SUCCESS\<rparr>,
           \<lparr>waitResult = VK_SUCCESS, acquireResult = VK_SUCCESS, imageIndex = 2,
            guardWaitResult = VK_SUCCESS, resetResult = VK_SUCCESS,
            submitResult = VK_SUCCESS, presentResult = VK_SUCCESS\<rparr>])))
   \<and> (\<exists>st'. snd (run_loop
          \<lparr>imageAvailableSemaphores = [11, 12], renderFinishedSemaphores = [21, 22],
           activeFences = [31, 32]\<rparr>
          (initial_state 3)
          [\<lparr>waitResult = VK_SUCCESS, acquireResult = VK_SUCCESS, imageIndex = 2,
            guardWaitResult = VK_SUCCESS, resetResult = VK_SUCCESS,
            submitResult = VK_SUCCESS, presentResult = VK_SUCCESS\<rparr>,
           \<lparr>waitResult = VK_SUCCESS, acquireResult = VK_SUCCESS, imageIndex = 2,
            guardWaitResult = VK_SUCCESS, resetResult = VK_SUCCESS,
            submitResult = VK_SUCCESS, presentResult = VK_SUCCESS\<rparr>]) = Inr st'
        \<and> unat (activeSyncIdx st') = 0)"
proof -
  have i: "unat (activeSyncIdx (initial_state 3)) = 0"
    by (simp add: initial_state_def)
  have n: "length (swapImagesFences (initial_state 3)) = 3"
    by (simp add: initial_state_def)
  show ?thesis
    using C3_frame_loop_order [of
      "\<lparr>imageAvailableSemaphores = [11, 12], renderFinishedSemaphores = [21, 22],
        activeFences = [31, 32]\<rparr>"
      "initial_state 3"
      "\<lparr>waitResult = VK_SUCCESS, acquireResult = VK_SUCCESS, imageIndex = 2,
         guardWaitResult = VK_SUCCESS, resetResult = VK_SUCCESS,
         submitResult = VK_SUCCESS, presentResult = VK_SUCCESS\<rparr>"
      "[\<lparr>waitResult = VK_SUCCESS, acquireResult = VK_SUCCESS, imageIndex = 2,
         guardWaitResult = VK_SUCCESS, resetResult = VK_SUCCESS,
         submitResult = VK_SUCCESS, presentResult = VK_SUCCESS\<rparr>,
        \<lparr>waitResult = VK_SUCCESS, acquireResult = VK_SUCCESS, imageIndex = 2,
         guardWaitResult = VK_SUCCESS, resetResult = VK_SUCCESS,
         submitResult = VK_SUCCESS, presentResult = VK_SUCCESS\<rparr>]"]
    unfolding vectors_sized_def indices_in_range_def i n
    by (auto simp: spec_slot_calls_def simp del: run_loop.simps)
qed




section \<open>Properties of the shader loader\<close>

lemma byte_high_bits:
  "\<not> bit (b :: byte) (8 + n)" "\<not> bit b (16 + n)" "\<not> bit b (24 + n)"
  using bit_imp_le_length [of b "8 + n"] bit_imp_le_length [of b "16 + n"]
    bit_imp_le_length [of b "24 + n"]
  by auto

lemma bytes_of_le32: "bytes_of_word (le32 b0 b1 b2 b3) = [b0, b1, b2, b3]"
  unfolding bytes_of_word_def le32_def
  by (auto intro!: bit_word_eqI simp: bit_simps byte_high_bits)

lemma length_words_of_bytes: "length (words_of_bytes bs) = length bs div 4"
  by (induction bs rule: words_of_bytes.induct) simp_all

lemma bytes_of_words_of_bytes:
  "length bs mod 4 = 0 \<Longrightarrow> bytes_of_words (words_of_bytes bs) = bs"
  by (induction bs rule: words_of_bytes.induct)
     (simp_all add: bytes_of_words_def bytes_of_le32)

lemma file_read_whole:
  "file_read buffer content (length content) = words_of_bytes content"
  if "length (bytes_of_words buffer) \<le> length content"
  using that by (simp add: file_read_def)

lemma length_bytes_of_words: "length (bytes_of_words ws) = 4 * length ws"
  by (induction ws) (simp_all add: bytes_of_words_def bytes_of_word_def)

lemma LoadSPIRV_aligned:
  assumes "fs name = Some content" and "length content mod 4 = 0"
  shows "LoadSPIRV fs name = Inr (words_of_bytes content)"
proof -
  have "length (bytes_of_words (replicate (length content div 4) (0 :: 32 word)))
          \<le> length content"
    by (simp add: length_bytes_of_words)
  then show ?thesis
    using assms by (simp add: LoadSPIRV_def Let_def file_read_whole)
qed

text \<open>
  C8. \<open>LoadSPIRV\<close> raises an error if and only if the file cannot be opened or its size
  in bytes is not divisible by 4; otherwise it returns exactly fileSize / 4 words, and
  the bytes of these words are the content of the file.
\<close>

theorem C8_LoadSPIRV:
  "((\<exists>e. LoadSPIRV fs name = Inl e)
      \<longleftrightarrow> (fs name = None \<or> (\<exists>content. fs name = Some content \<and> length content mod 4 \<noteq> 0)))
   \<and> (fs name = Some content \<and> length content mod 4 = 0 \<longrightarrow>
        (\<exists>buffer. LoadSPIRV fs name = Inr buffer
           \<and> length buffer = length content div 4
           \<and> bytes_of_words buffer = content))"
proof -
  have "(\<exists>e. LoadSPIRV fs name = Inl e)
      \<longleftrightarrow> (fs name = None \<or> (\<exists>content. fs name = Some content \<and> length content mod 4 \<noteq> 0))"
    by (cases "fs name") (auto simp: LoadSPIRV_def Let_def)
  moreover have "\<exists>buffer. LoadSPIRV fs name = Inr buffer
           \<and> length buffer = length content div 4
           \<and> bytes_of_words buffer = content"
    if "fs name = Some content" "length content mod 4 = 0"
    using LoadSPIRV_aligned [of fs name content] that
    by (simp add: length_words_of_bytes bytes_of_words_of_bytes)
  ultimately show ?thesis by (intro conjI impI) auto
qed

lemma LoadSPIRV_sample:
  "LoadSPIRV [''triangle.vert.spv'' \<mapsto> [3, 2, 35, 7, 0, 0, 1, 0]] ''triangle.vert.spv''
     = Inr [0x07230203, 0x00010000]"
  using LoadSPIRV_aligned [of "[''triangle.vert.spv'' \<mapsto> [3, 2, 35, 7, 0, 0, 1, 0]]"
      "''triangle.vert.spv''" "[3, 2, 35, 7, 0, 0, 1, 0]"]
  by (simp add: le32_def)

theorem C8_LoadSPIRV_witness:
  "[''triangle.vert.spv'' \<mapsto> [3, 2, 35, 7, 0, 0, 1, 0 :: byte]] ''triangle.vert.spv''
     = Some [3, 2, 35, 7, 0, 0, 1, 0]
   \<and> length [3, 2, 35, 7, 0, 0, 1, 0 :: byte] mod 4 = 0
   \<and> LoadSPIRV [''triangle.vert.spv'' \<mapsto> [3, 2, 35, 7, 0, 0, 1, 0]] ''triangle.vert.spv''
       = Inr [0x07230203, 0x00010000]
   \<and> bytes_of_words [0x07230203, 0x00010000] = [3, 2, 35, 7, 0, 0, 1, 0]
   \<and> (\<exists>e. LoadSPIRV [''triangle.vert.spv'' \<mapsto> [3, 2, 35, 7, 0, 0, 1, 0]] ''missing.spv''
             = Inl e)
   \<and> (\<exists>e. LoadSPIRV [''bad.spv'' \<mapsto> [3, 2, 35, 7, 0]] ''bad.spv'' = Inl e)"
  using C8_LoadSPIRV [of "[''triangle.vert.spv'' \<mapsto> [3, 2, 35, 7, 0, 0, 1, 0]]"
      "''triangle.vert.spv''" "[3, 2, 35, 7, 0, 0, 1, 0]"]
    C8_LoadSPIRV [of "[''triangle.vert.spv'' \<mapsto> [3, 2, 35, 7, 0, 0, 1, 0]]"
      "''missing.spv''" "[]"]
    C8_LoadSPIRV [of "[''bad.spv'' \<mapsto> [3, 2, 35, 7, 0]]" "''bad.spv''" "[]"]
    LoadSPIRV_sample
  by auto

section \<open>Properties of the compute shader\<close>

lemma sint_in_bounds:
  assumes "0 \<le> x" "x < sint (sx :: 32 word)"
  shows "sint (word_of_int x :: 32 word) = x"
proof -
  have "sint sx < 2 ^ 31" using sint_lt [of sx] by simp
  with assms have "x < 2 ^ 31" by linarith
  with assms(1) show ?thesis
    by (simp add: sint_uint word_of_int_inverse signed_take_bit_int_eq_self)
qed

lemma compute_main_Some:
  "compute_main sz inp gid = Some (p, v) \<Longrightarrow> v = invert (inp p)"
  by (auto simp: compute_main_def invert_def Let_def split: prod.splits if_splits)

lemma compute_main_Some_iff:
  "compute_main sz inp (gx, gy, gz) = Some (p, v) \<longleftrightarrow>
     sint gx < sint (fst sz) \<and> sint gy < sint (snd sz) \<and> p = (sint gx, sint gy)
     \<and> v = invert (inp p)"
  by (auto simp: compute_main_def invert_def Let_def split: prod.splits if_splits)

lemma dispatch_Cons:
  "dispatch sz inp out (gid # ids) = dispatch sz inp (imageStore out (compute_main sz inp gid)) ids"
  by (simp add: dispatch_def)

lemma dispatch_at:
  "dispatch sz inp out ids p =
     (if \<exists>gid \<in> set ids. compute_main sz inp gid = Some (p, invert (inp p))
      then invert (inp p) else out p)"
proof (induction ids arbitrary: out)
  case Nil
  then show ?case by (simp add: dispatch_def)
next
  case (Cons gid ids)
  show ?case
  proof (cases "compute_main sz inp gid")
    case None
    then show ?thesis
      unfolding dispatch_Cons Cons.IH by simp
  next
    case (Some s)
    obtain q v where s: "s = (q, v)" by (cases s)
    have v: "v = invert (inp q)"
      using Some s compute_main_Some by blast
    have first: "compute_main sz inp gid = Some (p, invert (inp p)) \<longleftrightarrow> q = p"
      using Some s v by auto
    show ?thesis
    proof (cases "\<exists>g \<in> set ids. compute_main sz inp g = Some (p, invert (inp p))")
      case True
      then show ?thesis
        unfolding dispatch_Cons Cons.IH by simp
    next
      case False
      then show ?thesis
        unfolding dispatch_Cons Cons.IH using Some s v first by auto
    qed
  qed
qed

lemma in_grid:
  "g \<in> set (concat (map (\<lambda>z. concat (map (\<lambda>y. map (\<lambda>x. f x y z) xs) ys)) zs))
     \<longleftrightarrow> (\<exists>z \<in> set zs. \<exists>y \<in> set ys. \<exists>x \<in> set xs. g = f x y z)"
  by auto

lemma in_invocation_ids:
  "gid \<in> set (invocation_ids a b c) \<longleftrightarrow>
     (\<exists>x y z. x < a * 16 \<and> y < b * 16 \<and> z < c \<and> gid = (of_nat x, of_nat y, of_nat z))"
proof -
  have "gid \<in> set (invocation_ids a b c) \<longleftrightarrow>
     (\<exists>z \<in> set [0..<c * 1]. \<exists>y \<in> set [0..<b * 16]. \<exists>x \<in> set [0..<a * 16].
        gid = (of_nat x, of_nat y, of_nat z))"
    unfolding invocation_ids_def by (rule in_grid)
  also have "\<dots> \<longleftrightarrow>
     (\<exists>x y z. x < a * 16 \<and> y < b * 16 \<and> z < c \<and> gid = (of_nat x, of_nat y, of_nat z))"
    unfolding set_upt Bex_def atLeastLessThan_iff by (simp only: mult_1_right) blast
  finally show ?thesis .
qed

lemma sint_small: "n < 256 \<Longrightarrow> sint (of_nat n :: 32 word) = int n"
  using sint_in_bounds [of "int n" "256 :: 32 word"] by simp

lemma vkcompute_stored:
  "(\<exists>gid \<in> set (invocation_ids (256 div 16) (256 div 16) 1).
       compute_main (256, 256) inp gid = Some ((x, y), invert (inp (x, y))))
   \<longleftrightarrow> 0 \<le> x \<and> x < 256 \<and> 0 \<le> y \<and> y < 256"
proof
  assume "\<exists>gid \<in> set (invocation_ids (256 div 16) (256 div 16) 1).
       compute_main (256, 256) inp gid = Some ((x, y), invert (inp (x, y)))"
  then obtain n m where "n < 256" "m < 256"
    and "compute_main (256, 256) inp (of_nat n, of_nat m, 0)
           = Some ((x, y), invert (inp (x, y)))"
    unfolding Bex_def in_invocation_ids by auto
  then show "0 \<le> x \<and> x < 256 \<and> 0 \<le> y \<and> y < 256"
    by (auto simp: compute_main_Some_iff sint_small)
next
  assume b: "0 \<le> x \<and> x < 256 \<and> 0 \<le> y \<and> y < 256"
  then have "nat x < 16 * 16 \<and> nat y < 16 * 16 \<and> (0::nat) < 1" by arith
  then have "(of_nat (nat x), of_nat (nat y), of_nat 0)
               \<in> set (invocation_ids (256 div 16) (256 div 16) 1)"
    unfolding in_invocation_ids by (intro exI [of _ "nat x"] exI [of _ "nat y"] exI [of _ 0]) simp
  moreover have "compute_main (256, 256) inp (of_nat (nat x), of_nat (nat y), of_nat 0)
      = Some ((x, y), invert (inp (x, y)))"
  proof -
    have "nat x < 256" "nat y < 256" using b by arith+
    then have "sint (of_nat (nat x) :: 32 word) = x" "sint (of_nat (nat y) :: 32 word) = y"
      using b sint_small [of "nat x"] sint_small [of "nat y"] by simp_all
    then show ?thesis
      using b by (simp add: compute_main_Some_iff del: of_nat_nat)
  qed
  ultimately show "\<exists>gid \<in> set (invocation_ids (256 div 16) (256 div 16) 1).
       compute_main (256, 256) inp gid = Some ((x, y), invert (inp (x, y)))"
    by blast
qed

lemma vkcompute_dispatch_at:
  "vkcompute_dispatch src dst (x, y) =
     (if 0 \<le> x \<and> x < 256 \<and> 0 \<le> y \<and> y < 256 then invert (src (x, y)) else dst (x, y))"
  unfolding vkcompute_dispatch_def dispatch_at vkcompute_stored by simp

lemma sint_below_2_31:
  assumes "uint (w :: 32 word) < 2 ^ 31"
  shows "sint w = uint w"
proof -
  have "- (2 ^ 31) \<le> (0::int)" by simp
  also have "(0::int) \<le> uint w" by simp
  finally have "- (2 ^ 31) \<le> uint w" .
  then have "signed_take_bit (31::nat) (uint w) = uint w"
    using assms by (rule signed_take_bit_int_eq_self)
  then show ?thesis
    by (simp add: sint_uint)
qed

lemma uint_small: "n < 256 \<Longrightarrow> uint (of_nat n :: 32 word) = int n"
  by (simp add: uint_nat unat_of_nat take_bit_nat_eq_self)

lemma dispatched_ids_small:
  assumes "(gx, gy, gz) \<in> set (invocation_ids (256 div 16) (256 div 16) 1)"
  shows "uint gx < 256 \<and> uint gy < 256"
proof -
  obtain n m where "n < 256" "m < 256"
    and g: "gx = of_nat n" "gy = of_nat m"
    using assms unfolding in_invocation_ids by auto
  then show ?thesis
    by (simp add: uint_small)
qed

text \<open>
  C10. For every pixel coordinate inside the bounds of the input image, the invocation
  with that coordinate stores the colour-inverted pixel (1-r, 1-g, 1-b, 1.0) of the input
  at the same coordinate of the output image, and an invocation whose coordinate lies
  outside the bounds performs no image store at all. The invocations are those with an
  identifier below 2^31 in x and y, whose coordinate is the identifier itself; the
  example dispatches 16 x 16 groups, whose identifiers are below 256. After that
  dispatch each pixel of the 256 x 256 output is the inverted input pixel, and nothing
  else has been stored.
\<close>

theorem C10_compute_shader:
  "(0 \<le> x \<and> x < sint sx \<and> 0 \<le> y \<and> y < sint sy \<longrightarrow>
      compute_main (sx, sy) u_input_image (word_of_int x, word_of_int y, gz)
        = Some ((x, y), invert (u_input_image (x, y))))
   \<and> (uint gx < 2 ^ 31 \<and> uint gy < 2 ^ 31 \<longrightarrow>
        (uint gx < sint sx \<and> uint gy < sint sy \<longrightarrow>
           compute_main (sx, sy) u_input_image (gx, gy, gz)
             = Some ((uint gx, uint gy), invert (u_input_image (uint gx, uint gy))))
        \<and> (\<not> (uint gx < sint sx \<and> uint gy < sint sy) \<longrightarrow>
             compute_main (sx, sy) u_input_image (gx, gy, gz) = None))
   \<and> ((gx, gy, gz) \<in> set (invocation_ids (256 div 16) (256 div 16) 1) \<longrightarrow>
        uint gx < 256 \<and> uint gy < 256)
   \<and> (0 \<le> x \<and> x < 256 \<and> 0 \<le> y \<and> y < 256 \<longrightarrow>
        vkcompute_dispatch sourceImage destinationImage (x, y) = invert (sourceImage (x, y)))
   \<and> (\<not> (0 \<le> x \<and> x < 256 \<and> 0 \<le> y \<and> y < 256) \<longrightarrow>
        vkcompute_dispatch sourceImage destinationImage (x, y) = destinationImage (x, y))"
proof -
  have a: "compute_main (sx, sy) u_input_image (word_of_int x, word_of_int y, gz)
        = Some ((x, y), invert (u_input_image (x, y)))"
    if "0 \<le> x" "x < sint sx" "0 \<le> y" "y < sint sy"
    using that sint_in_bounds [of x sx] sint_in_bounds [of y sy]
    by (simp add: compute_main_Some_iff)
  have b: "compute_main (sx, sy) u_input_image (gx, gy, gz)
             = Some ((uint gx, uint gy), invert (u_input_image (uint gx, uint gy)))"
    if "uint gx < 2 ^ 31" "uint gy < 2 ^ 31" "uint gx < sint sx" "uint gy < sint sy"
    using that sint_below_2_31 [of gx] sint_below_2_31 [of gy]
    by (simp add: compute_main_Some_iff)
  have c: "compute_main (sx, sy) u_input_image (gx, gy, gz) = None"
    if "uint gx < 2 ^ 31" "uint gy < 2 ^ 31" "\<not> (uint gx < sint sx \<and> uint gy < sint sy)"
    using that sint_below_2_31 [of gx] sint_below_2_31 [of gy]
    by (auto simp: compute_main_def)
  have d: "uint gx < 256 \<and> uint gy < 256"
    if "(gx, gy, gz) \<in> set (invocation_ids (256 div 16) (256 div 16) 1)"
    using that by (rule dispatched_ids_small)
  show ?thesis
    using a b c d by (simp add: vkcompute_dispatch_at)
qed

theorem C10_compute_shader_witness:
  "(0::int) \<le> 3 \<and> (3::int) < sint (256 :: 32 word) \<and> (0::int) \<le> 5 \<and> (5::int) < sint (256 :: 32 word)
   \<and> compute_main (256, 256) (\<lambda>p. (0.25, 0.5, 1, 0.5)) (3, 5, 0)
       = Some ((3, 5), (0.75, 0.5, 0, 1))
   \<and> uint (256 :: 32 word) < 2 ^ 31 \<and> uint (5 :: 32 word) < 2 ^ 31
   \<and> \<not> (uint (256 :: 32 word) < sint (256 :: 32 word) \<and> uint (5 :: 32 word) < sint (256 :: 32 word))
   \<and> compute_main (256, 256) (\<lambda>p. (0.25, 0.5, 1, 0.5)) (256, 5, 0) = None
   \<and> compute_main (256, 256) (\<lambda>p. (0.25, 0.5, 1, 0.5)) (3, 300, 0) = None
   \<and> vkcompute_dispatch (\<lambda>p. (0.25, 0.5, 1, 0.5)) (\<lambda>p. (0, 0, 0, 0)) (3, 5)
       = (0.75, 0.5, 0, 1)
   \<and> vkcompute_dispatch (\<lambda>p. (0.25, 0.5, 1, 0.5)) (\<lambda>p. (0, 0, 0, 0)) (256, 5)
       = (0, 0, 0, 0)"
  using C10_compute_shader [of 3 256 5 256 "\<lambda>p. (0.25, 0.5, 1, 0.5)" 0 256 5
      "\<lambda>p. (0.25, 0.5, 1, 0.5)" "\<lambda>p. (0, 0, 0, 0)"]
    C10_compute_shader [of 256 256 5 256 "\<lambda>p. (0.25, 0.5, 1, 0.5)" 0 3 300
      "\<lambda>p. (0.25, 0.5, 1, 0.5)" "\<lambda>p. (0, 0, 0, 0)"]
  by (simp add: invert_def)

section \<open>Properties of the composition shader\<close>

lemma compose_main_eq:
  "compose_main (r, g0, b0, a0) (r1, g, b1, a1) (r2, g2, b, a2) coord =
     (if r < float_0_01 \<or> g < float_0_01 \<or> b < float_0_01
      then checkerboard coord else (r, g, b, 1))"
  by (simp add: compose_main_def Let_def checkerboard_def int_of_bool_def)

text \<open>
  The part of the claim the shader fulfils: a pixel whose three sampled channels are all
  below 0.01 gets the checkerboard, and so does a pixel that no triangle covers, whose
  attachments hold the clear value.
\<close>

lemma compose_all_below:
  "r < float_0_01 \<Longrightarrow> g < float_0_01 \<Longrightarrow> b < float_0_01 \<Longrightarrow>
     compose_main (r, g0, b0, a0) (r1, g, b1, a1) (r2, g2, b, a2) coord = checkerboard coord"
  by (simp add: compose_main_eq)

lemma compose_uncovered:
  "compose_main clearColor clearColor clearColor coord = checkerboard coord"
  by (simp add: clearColor_def compose_main_eq float_0_01_def)

lemma checkerboard_values:
  "checkerboard (0.5, 0.5) = (float_0_1, float_0_1, float_0_1, 1)"
  "checkerboard (20.5, 0.5) = (0, 0, 0, 1)"
  "checkerboard (0.5, 20.5) = (0, 0, 0, 1)"
  "checkerboard (40.5, 80.5) = (float_0_1, float_0_1, float_0_1, 1)"
  by (simp_all add: checkerboard_def glsl_mod_def)


end
